theory Spec2Isabelle
  imports Complex_Main "HOL-Library.FSet"
begin

section \<open>Python values\<close>

text \<open>
  A Python \<^verbatim>\<open>str\<close> is a sequence of Unicode code points, so \<^verbatim>\<open>len\<close>, slicing and
  \<^verbatim>\<open>in\<close> count code points. ASCII literals are written with \<open>u\<close>; the two emoji of
  the source are given by their code points.
\<close>

type_synonym ustr = "nat list"

definition u :: "string \<Rightarrow> ustr" where
  "u s = map of_char s"

text \<open>\<^verbatim>\<open>str.isspace\<close> for one code point (the whitespace table of CPython).\<close>

definition py_isspace :: "nat \<Rightarrow> bool" where
  "py_isspace c \<longleftrightarrow>
     (9 \<le> c \<and> c \<le> 13) \<or> (28 \<le> c \<and> c \<le> 32) \<or> c = 133 \<or> c = 160 \<or> c = 5760 \<or>
     (8192 \<le> c \<and> c \<le> 8202) \<or> c = 8232 \<or> c = 8233 \<or> c = 8239 \<or> c = 8287 \<or> c = 12288"

text \<open>\<^verbatim>\<open>s.strip()\<close>\<close>

definition py_strip :: "ustr \<Rightarrow> ustr" where
  "py_strip s = rev (dropWhile py_isspace (rev (dropWhile py_isspace s)))"

text \<open>\<^verbatim>\<open>s.startswith(p)\<close>\<close>

definition startswith :: "ustr \<Rightarrow> ustr \<Rightarrow> bool" where
  "startswith s p \<longleftrightarrow> take (length p) s = p"

text \<open>\<^verbatim>\<open>sub in s\<close> on strings: \<open>sub\<close> occurs in \<open>s\<close> at some offset.\<close>

fun py_in :: "ustr \<Rightarrow> ustr \<Rightarrow> bool" where
  "py_in sub [] = (sub = [])"
| "py_in sub (c # cs) = (startswith (c # cs) sub \<or> py_in sub cs)"

text \<open>
  The loop \<^verbatim>\<open>for sub in subs: if sub in s: ...\<close>: whether some entry of \<open>subs\<close>
  occurs in \<open>s\<close>.
\<close>

fun contains_any :: "ustr list \<Rightarrow> ustr \<Rightarrow> bool" where
  "contains_any [] s = False"
| "contains_any (sub # subs) s = (if py_in sub s then True else contains_any subs s)"

text \<open>\<^verbatim>\<open>str(n)\<close> for an integer, as an f-string formats it.\<close>

function digits_of_nat :: "nat \<Rightarrow> ustr" where
  "digits_of_nat n = (if n < 10 then [48 + n] else digits_of_nat (n div 10) @ [48 + n mod 10])"
  by pat_completeness auto
termination
  by (relation "measure id") auto

declare digits_of_nat.simps [simp del]

definition str_of_int :: "int \<Rightarrow> ustr" where
  "str_of_int i = (if i < 0 then 45 # digits_of_nat (nat (- i)) else digits_of_nat (nat i))"

text \<open>\<^verbatim>\<open>int(x)\<close> for a float: truncation toward zero. Clock readings are reals.\<close>

definition py_int :: "real \<Rightarrow> int" where
  "py_int x = (if 0 \<le> x then \<lfloor>x\<rfloor> else \<lceil>x\<rceil>)"

text \<open>
  Two library functions are not part of the repository and are parameters of the model:
  \<^verbatim>\<open>str.lower\<close> (the Unicode case tables) and
  \<^verbatim>\<open>hashlib.md5(s.encode()).hexdigest()\<close>, which raises when \<open>s\<close> cannot be
  encoded (\<open>None\<close>).
\<close>

record pylib =
  str_lower :: "ustr \<Rightarrow> ustr"
  md5_hexdigest :: "ustr \<Rightarrow> ustr option"

section \<open>Agent state\<close>

text \<open>
  The fields of \<^verbatim>\<open>WhatsAppAgent\<close> that the monitoring loop reads or writes.
  (\<^verbatim>\<open>intro_sent_by_chat\<close>, \<^verbatim>\<open>last_message_timestamps\<close>,
  \<^verbatim>\<open>new_contact_detected\<close> and \<^verbatim>\<open>current_chat_name\<close> are initialised and never
  used again.)
\<close>

record agent =
  processed_messages :: "ustr fset"
  processed_chats :: "ustr fset"
  chat_cooldowns :: "ustr \<rightharpoonup> real"
  last_scan_time :: real
  scan_count :: int
  known_contacts :: "ustr fset"
  busy_message_sent :: "ustr fset"

definition CHECK_INTERVAL :: real where "CHECK_INTERVAL = 3"
definition MESSAGE_COOLDOWN :: real where "MESSAGE_COOLDOWN = 15"
definition SCAN_COOLDOWN :: real where "SCAN_COOLDOWN = 5"

section \<open>Contact ledger\<close>

text \<open>\<^verbatim>\<open>chat_name.strip().lower()\<close>\<close>

definition clean_chat_name :: "pylib \<Rightarrow> ustr \<Rightarrow> ustr" where
  "clean_chat_name L chat_name = str_lower L (py_strip chat_name)"

definition is_new_contact :: "pylib \<Rightarrow> agent \<Rightarrow> ustr \<Rightarrow> bool" where
  "is_new_contact L st chat_name =
     (if clean_chat_name L chat_name |\<in>| known_contacts st then False
      else if startswith (clean_chat_name L chat_name) (u ''chat_'')
              \<or> startswith (clean_chat_name L chat_name) (u ''unknown_'') then False
      else True)"

definition mark_contact_as_known :: "pylib \<Rightarrow> agent \<Rightarrow> ustr \<Rightarrow> agent" where
  "mark_contact_as_known L st chat_name =
     st\<lparr>known_contacts := finsert (clean_chat_name L chat_name) (known_contacts st)\<rparr>"

definition has_busy_message_been_sent :: "pylib \<Rightarrow> agent \<Rightarrow> ustr \<Rightarrow> bool" where
  "has_busy_message_been_sent L st chat_name \<longleftrightarrow>
     clean_chat_name L chat_name |\<in>| busy_message_sent st"

definition mark_busy_message_sent :: "pylib \<Rightarrow> agent \<Rightarrow> ustr \<Rightarrow> agent" where
  "mark_busy_message_sent L st chat_name =
     st\<lparr>busy_message_sent := finsert (clean_chat_name L chat_name) (busy_message_sent st)\<rparr>"

section \<open>Responder\<close>

definition busy_reply :: ustr where
  "busy_reply = u ''Hi, Akash is busy.''"

definition fallback_reply :: ustr where
  "fallback_reply = u ''I'm here to help! What do you need? '' @ [128522]"

text \<open>The user turn of the chat-completion request.\<close>

definition user_prompt :: "ustr \<Rightarrow> ustr" where
  "user_prompt message = u ''Someone sent: '' @ [39] @ message @ [39] @ u ''. Respond appropriately.''"

text \<open>The \<^verbatim>\<open>except\<close> handler of \<^verbatim>\<open>generate_ai_response\<close>.\<close>

definition ai_response_fallback :: "pylib \<Rightarrow> agent \<Rightarrow> ustr \<Rightarrow> ustr \<times> agent" where
  "ai_response_fallback L st chat_name =
     (if is_new_contact L st chat_name \<and> \<not> has_busy_message_been_sent L st chat_name
      then (busy_reply, mark_contact_as_known L (mark_busy_message_sent L st chat_name) chat_name)
      else (fallback_reply, mark_contact_as_known L st chat_name))"

text \<open>
  \<open>api\<close> is the chat-completion call with the fixed system prompt and sampling
  parameters, as a function of the user turn: \<open>Some content\<close> is
  \<^verbatim>\<open>response.choices[0].message.content\<close>, \<open>None\<close> any exception raised by the
  call or by reading its result. Returns the reply and the updated agent.
\<close>

definition generate_ai_response ::
  "pylib \<Rightarrow> (ustr \<Rightarrow> ustr option) \<Rightarrow> agent \<Rightarrow> ustr \<Rightarrow> ustr \<Rightarrow> ustr \<times> agent" where
  "generate_ai_response L api st message chat_name =
     (if is_new_contact L st chat_name \<and> \<not> has_busy_message_been_sent L st chat_name
      then (busy_reply, mark_contact_as_known L (mark_busy_message_sent L st chat_name) chat_name)
      else (case api (user_prompt message) of
              Some content \<Rightarrow> (py_strip content, mark_contact_as_known L st chat_name)
            | None \<Rightarrow> ai_response_fallback L (mark_contact_as_known L st chat_name) chat_name))"

section \<open>Own-message filters\<close>

definition ai_signatures :: "ustr list" where
  "ai_signatures =
     [u ''Hey! Akash is busy right now, but I'm his AI assistant'',
      u ''I'm Akash's AI assistant'',
      u ''Hi! Akash is busy right now - I'm his AI assistant'',
      u ''I'm here to help! What do you need?'',
      [129302]]"

definition is_message_from_user :: "ustr \<Rightarrow> bool" where
  "is_message_from_user message_text =
     (if contains_any ai_signatures message_text then False
      else if length message_text > 120 then False
      else True)"

definition ai_indicators :: "ustr list" where
  "ai_indicators =
     [u ''Hey! Akash is busy right now, but I'm his AI assistant'',
      u ''I'm Akash's AI assistant'',
      [129302],
      u ''AI assistant'']"

text \<open>
  One entry per selector of \<^verbatim>\<open>INCOMING_MSG_SELECTORS\<close>: the \<^verbatim>\<open>elem.text\<close> values
  read before the selector's \<^verbatim>\<open>try\<close> block ended, and whether it ended by an
  exception.
\<close>

fun collect_incoming :: "(ustr list \<times> bool) list \<Rightarrow> ustr list \<Rightarrow> ustr list" where
  "collect_incoming [] incoming_messages = incoming_messages"
| "collect_incoming ((texts, raised) # rest) incoming_messages =
     (let found = incoming_messages @ filter (\<lambda>msg_text. msg_text \<noteq> []) (map py_strip texts) in
      if raised then collect_incoming rest found
      else if found \<noteq> [] then found
      else collect_incoming rest found)"

definition get_latest_incoming_message :: "pylib \<Rightarrow> (ustr list \<times> bool) list \<Rightarrow> ustr option" where
  "get_latest_incoming_message L selectors =
     (let incoming_messages = collect_incoming selectors [] in
      if incoming_messages = [] then None
      else let latest_message = last incoming_messages in
        if contains_any ai_indicators latest_message then None
        else if length latest_message > 100
                \<and> py_in (u ''assistant'') (str_lower L latest_message) then None
        else Some latest_message)"

section \<open>Chat scanner\<close>

text \<open>
  What one pass of the row loop observes of a chat-list row: visibility, rendered height,
  on-screen position, whether one of \<^verbatim>\<open>UNREAD_INDICATORS\<close> matched a displayed
  element of positive width, and the name \<^verbatim>\<open>get_chat_name_from_element\<close> resolves
  (it never raises). A row whose inspection raises is \<open>None\<close>: the row's
  \<^verbatim>\<open>except\<close> skips it.
\<close>

record chat_row =
  is_displayed :: bool
  height :: int
  location_x :: int
  location_y :: int
  has_unread :: bool
  row_name :: ustr

definition chat_id_of :: "chat_row \<Rightarrow> ustr" where
  "chat_id_of chat = str_of_int (location_x chat) @ u ''_'' @ str_of_int (location_y chat)"

text \<open>
  The selector fallback used for the chat list: the first selector whose
  \<^verbatim>\<open>find_elements\<close> does not raise (\<open>Some\<close>) and finds something.
\<close>

fun first_working :: "'a list option list \<Rightarrow> 'a list" where
  "first_working [] = []"
| "first_working (None # rest) = first_working rest"
| "first_working (Some chats # rest) = (if chats \<noteq> [] then chats else first_working rest)"

text \<open>The row loop: the first row that is surfaced, with its name and id.\<close>

fun find_unread :: "real \<Rightarrow> agent \<Rightarrow> chat_row option list \<Rightarrow> (chat_row \<times> ustr \<times> ustr) option" where
  "find_unread current_time st [] = None"
| "find_unread current_time st (None # rest) = find_unread current_time st rest"
| "find_unread current_time st (Some chat # rest) =
     (if \<not> is_displayed chat \<or> height chat \<le> 10 then find_unread current_time st rest
      else if chat_id_of chat |\<in>| processed_chats st then find_unread current_time st rest
      else if has_unread chat then
        (case chat_cooldowns st (row_name chat) of
           Some last_reply \<Rightarrow>
             if current_time - last_reply < MESSAGE_COOLDOWN then find_unread current_time st rest
             else Some (chat, row_name chat, chat_id_of chat)
         | None \<Rightarrow> Some (chat, row_name chat, chat_id_of chat))
      else find_unread current_time st rest)"

definition scan_for_unread_chats ::
  "real \<Rightarrow> chat_row option list option list \<Rightarrow> agent \<Rightarrow> (chat_row \<times> ustr \<times> ustr) list \<times> agent" where
  "scan_for_unread_chats current_time selectors st =
     (if current_time - last_scan_time st < SCAN_COOLDOWN then ([], st)
      else
        let st1 = st\<lparr>last_scan_time := current_time, scan_count := scan_count st + 1\<rparr>;
            all_chats = first_working selectors
        in if all_chats = [] then ([], st1)
           else
             let (unread_chats, st2) =
                   (case find_unread current_time st1 (take 20 all_chats) of
                      None \<Rightarrow> ([], st1)
                    | Some (chat, chat_name, chat_id) \<Rightarrow>
                        ([(chat, chat_name, chat_id)],
                         st1\<lparr>processed_chats := finsert chat_id (processed_chats st1)\<rparr>))
             in if scan_count st2 mod 10 = 0
                then (unread_chats, st2\<lparr>processed_chats := {||}\<rparr>)
                else (unread_chats, st2))"

section \<open>Monitoring loop\<close>

text \<open>
  Everything one iteration of the loop reads from outside the agent: the clock at each
  \<^verbatim>\<open>time.time()\<close> call, what the page shows, whether the click and the send
  succeeded, the model call, and the order in which
  \<^verbatim>\<open>list(self.processed_messages)\<close> enumerates the set.
\<close>

record tick_env =
  scan_time :: real
  chat_list :: "chat_row option list option list"
  click_ok :: bool
  header_names :: "ustr option list"
  header_time :: real
  incoming :: "(ustr list \<times> bool) list"
  id_time :: real
  api :: "ustr \<Rightarrow> ustr option"
  send_ok :: bool
  sent_time :: real
  cleanup_order :: "ustr list"
  cleanup_time :: real

text \<open>
  One entry per selector of \<^verbatim>\<open>CHAT_HEADER_SELECTORS\<close>: the value of
  \<^verbatim>\<open>elem.get_attribute('title') or elem.text\<close>, or \<open>None\<close> when the lookup raises.
\<close>

fun first_header_name :: "ustr option list \<Rightarrow> ustr option" where
  "first_header_name [] = None"
| "first_header_name (None # rest) = first_header_name rest"
| "first_header_name (Some name # rest) =
     (if name \<noteq> [] \<and> py_strip name \<noteq> [] then Some (py_strip name) else first_header_name rest)"

definition get_current_chat_name :: "ustr option list \<Rightarrow> real \<Rightarrow> ustr" where
  "get_current_chat_name selectors now =
     (case first_header_name selectors of
        Some name \<Rightarrow> name
      | None \<Rightarrow> u ''Chat_'' @ str_of_int (py_int now))"

definition create_message_id :: "pylib \<Rightarrow> ustr \<Rightarrow> ustr \<Rightarrow> real \<Rightarrow> ustr option" where
  "create_message_id L message chat_name now =
     (let timestamp_group = py_int now div 60 in
      map_option (take 12)
        (md5_hexdigest L (chat_name @ u ''::'' @ take 50 message @ u ''::'' @ str_of_int timestamp_group)))"

text \<open>How the handling of a surfaced chat ended; \<open>Replied\<close> and \<open>SendFailed\<close> carry the
  text handed to \<^verbatim>\<open>send_message\<close>.\<close>

datatype outcome =
    NoUnread
  | ClickFailed
  | NoValidMessage
  | OwnMessage
  | AlreadyProcessed
  | ProcessingError
  | Replied ustr
  | SendFailed ustr

text \<open>The body of the inner \<^verbatim>\<open>try\<close> of \<^verbatim>\<open>main_monitoring_loop\<close>.\<close>

definition process_chat :: "pylib \<Rightarrow> tick_env \<Rightarrow> agent \<Rightarrow> outcome \<times> agent" where
  "process_chat L env st =
     (if \<not> click_ok env then (ClickFailed, st)
      else
        let actual_chat_name = get_current_chat_name (header_names env) (header_time env) in
        case get_latest_incoming_message L (incoming env) of
          None \<Rightarrow> (NoValidMessage, st)
        | Some latest_message \<Rightarrow>
            if latest_message \<noteq> [] \<and> length (py_strip latest_message) > 0 then
              if \<not> is_message_from_user latest_message then (OwnMessage, st)
              else
                (case create_message_id L latest_message actual_chat_name (id_time env) of
                   None \<Rightarrow> (ProcessingError, st)
                 | Some message_id \<Rightarrow>
                     if message_id |\<in>| processed_messages st then (AlreadyProcessed, st)
                     else
                       let (ai_reply, st1) =
                             generate_ai_response L (api env) st latest_message actual_chat_name
                       in if send_ok env
                          then (Replied ai_reply,
                                st1\<lparr>processed_messages := finsert message_id (processed_messages st1),
                                    chat_cooldowns := (chat_cooldowns st1)(actual_chat_name \<mapsto> sent_time env)\<rparr>)
                          else (SendFailed ai_reply, st1))
            else (NoValidMessage, st))"

text \<open>The \<^verbatim>\<open>discard\<close> loop over \<^verbatim>\<open>old_messages\<close>.\<close>

definition discard_all :: "ustr list \<Rightarrow> ustr fset \<Rightarrow> ustr fset" where
  "discard_all old_messages pm = fold (\<lambda>old_msg s. s |-| {|old_msg|}) old_messages pm"

definition cleanup_processed :: "ustr list \<Rightarrow> ustr fset \<Rightarrow> ustr fset" where
  "cleanup_processed order pm =
     (if fcard pm > 100 then discard_all (take 50 order) pm else pm)"

definition cleanup_cooldowns :: "real \<Rightarrow> (ustr \<rightharpoonup> real) \<Rightarrow> (ustr \<rightharpoonup> real)" where
  "cleanup_cooldowns current_time cooldowns =
     (\<lambda>chat. case cooldowns chat of
                None \<Rightarrow> None
              | Some timestamp \<Rightarrow>
                  if current_time - timestamp > MESSAGE_COOLDOWN * 2 then None else Some timestamp)"

definition housekeeping :: "tick_env \<Rightarrow> agent \<Rightarrow> agent" where
  "housekeeping env st =
     st\<lparr>processed_messages := cleanup_processed (cleanup_order env) (processed_messages st),
        chat_cooldowns := cleanup_cooldowns (cleanup_time env) (chat_cooldowns st)\<rparr>"

text \<open>The outcomes that end the iteration with \<^verbatim>\<open>continue\<close>, before the cleanup.\<close>

fun continues :: "outcome \<Rightarrow> bool" where
  "continues ClickFailed = True"
| "continues OwnMessage = True"
| "continues AlreadyProcessed = True"
| "continues ProcessingError = True"
| "continues _ = False"

text \<open>
  One iteration of the \<^verbatim>\<open>while\<close> loop. Nothing in the body raises past the inner
  \<^verbatim>\<open>try\<close>, so the outer handler and its error counter are not part of the model.
\<close>

definition loop_tick :: "pylib \<Rightarrow> tick_env \<Rightarrow> agent \<Rightarrow> outcome \<times> agent" where
  "loop_tick L env st =
     (let (unread_chats, st1) = scan_for_unread_chats (scan_time env) (chat_list env) st in
      case unread_chats of
        [] \<Rightarrow> (NoUnread, housekeeping env st1)
      | (chat_element, chat_name, chat_id) # _ \<Rightarrow>
          let (out, st2) = process_chat L env st1 in
          if continues out then (out, st2) else (out, housekeeping env st2))"

text \<open>The loop over a finite run of iterations.\<close>

fun main_monitoring_loop :: "pylib \<Rightarrow> tick_env list \<Rightarrow> agent \<Rightarrow> agent" where
  "main_monitoring_loop L [] st = st"
| "main_monitoring_loop L (env # envs) st = main_monitoring_loop L envs (snd (loop_tick L env st))"

text \<open>
  The part of an iteration before the cleanup: the scan and the handling of the surfaced
  chat. \<open>loop_tick\<close> continues from its result with the cleanup, unless the outcome
  ended the iteration with \<^verbatim>\<open>continue\<close>.
\<close>

definition before_cleanup :: "pylib \<Rightarrow> tick_env \<Rightarrow> agent \<Rightarrow> outcome \<times> agent" where
  "before_cleanup L env st =
     (let (unread_chats, st1) = scan_for_unread_chats (scan_time env) (chat_list env) st in
      case unread_chats of
        [] \<Rightarrow> (NoUnread, st1)
      | (chat_element, chat_name, chat_id) # _ \<Rightarrow> process_chat L env st1)"

text \<open>
  Over a run of iterations, every iteration that reaches the cleanup does so with at
  most 100 entries in \<open>processed_messages\<close>, so that the cleanup evicts nothing.
\<close>

fun no_eviction :: "pylib \<Rightarrow> tick_env list \<Rightarrow> agent \<Rightarrow> bool" where
  "no_eviction L [] st = True"
| "no_eviction L (env # envs) st =
     ((continues (fst (before_cleanup L env st))
       \<or> fcard (processed_messages (snd (before_cleanup L env st))) \<le> 100)
      \<and> no_eviction L envs (snd (loop_tick L env st)))"

text \<open>The state \<^verbatim>\<open>__init__\<close> sets up; \<open>now\<close> is its clock reading.\<close>

definition WhatsAppAgent_init :: "real \<Rightarrow> agent" where
  "WhatsAppAgent_init now =
     \<lparr>processed_messages = {||}, processed_chats = {||}, chat_cooldowns = Map.empty,
      last_scan_time = now, scan_count = 0, known_contacts = {||}, busy_message_sent = {||}\<rparr>"

section \<open>A concrete library for evaluation\<close>

text \<open>
  The theorems below hold for every \<open>pylib\<close>. Where a statement is evaluated on a
  concrete input, the library is instantiated with \<open>ascii_lower\<close>, which is
  \<^verbatim>\<open>str.lower\<close> on ASCII text, and with \<open>demo_hexdigest\<close>: the MD5 digest,
  looked up in a table, of the one string the evaluations below hash, and a polynomial
  checksum printed as 32 hexadecimal digits for every other string.
\<close>

definition ascii_lower :: "ustr \<Rightarrow> ustr" where
  "ascii_lower s = map (\<lambda>c. if 65 \<le> c \<and> c \<le> 90 then c + 32 else c) s"

definition hexdigit :: "nat \<Rightarrow> nat" where
  "hexdigit d = (if d < 10 then 48 + d else 87 + d)"

function hex_le :: "nat \<Rightarrow> nat \<Rightarrow> ustr" where
  "hex_le k n = (if k = 0 then [] else hexdigit (n mod 16) # hex_le (k - 1) (n div 16))"
  by pat_completeness auto
termination
  by (relation "measure fst") auto

declare hex_le.simps [simp del]

definition poly_hexdigest :: "ustr \<Rightarrow> ustr option" where
  "poly_hexdigest s = Some (hex_le 32 (fold (\<lambda>c h. (h * 131 + c) mod 16 ^ 32) s 7))"

definition md5_known :: "(ustr \<times> ustr) list" where
  "md5_known = [(u ''Maria::hi::28333334'', u ''792884534d2e689cb3c7e196e0b27ae4'')]"

definition demo_hexdigest :: "ustr \<Rightarrow> ustr option" where
  "demo_hexdigest s =
     (case map_of md5_known s of Some digest \<Rightarrow> Some digest | None \<Rightarrow> poly_hexdigest s)"

definition demo_lib :: pylib where
  "demo_lib = \<lparr>str_lower = ascii_lower, md5_hexdigest = demo_hexdigest\<rparr>"

text \<open>
  A concrete iteration: the chat list shows one unread row named Maria at height \<open>y\<close>
  (the first chat-list selector raises, the second finds the row), the click succeeds,
  the header reads Maria, \<open>msgs\<close> are the incoming bubbles, the model answers, and
  \<open>ok\<close> says whether the send succeeds. The scan starts at time \<open>t\<close>.
\<close>

definition maria_row :: "int \<Rightarrow> chat_row" where
  "maria_row y =
     \<lparr>is_displayed = True, height = 72, location_x = 0, location_y = y,
      has_unread = True, row_name = u ''Maria''\<rparr>"

definition maria_env :: "real \<Rightarrow> int \<Rightarrow> ustr list \<Rightarrow> bool \<Rightarrow> ustr list \<Rightarrow> tick_env" where
  "maria_env t y msgs ok order =
     \<lparr>scan_time = t, chat_list = [None, Some [Some (maria_row y)]], click_ok = True,
      header_names = [Some (u ''Maria'')], header_time = t + 4,
      incoming = [(msgs, False)], id_time = t + 4,
      api = (\<lambda>prompt. Some (u ''Yep, what's up?'')), send_ok = ok, sent_time = t + 7,
      cleanup_order = order, cleanup_time = t + 10\<rparr>"

text \<open>A model call that answers every prompt with the given text.\<close>

definition model_says :: "ustr \<Rightarrow> ustr \<Rightarrow> ustr option" where
  "model_says reply prompt = Some reply"

text \<open>
  Ledger contents for the eviction examples: \<open>stored_ids n\<close> are \<open>n\<close> distinct ids of
  twelve hexadecimal digits. \<open>full_ledger_agent\<close> is an agent that has answered one
  contact a hundred times; \<open>ninth_scan_agent\<close> has scanned nine times and remembers one
  surfaced row.
\<close>

definition stored_ids :: "nat \<Rightarrow> ustr list" where
  "stored_ids n = map (hex_le 12) [0..<n]"

definition full_ledger_agent :: agent where
  "full_ledger_agent =
     \<lparr>processed_messages = fset_of_list (stored_ids 100), processed_chats = {||},
      chat_cooldowns = Map.empty, last_scan_time = 1700000000, scan_count = 200,
      known_contacts = {|u ''bob''|}, busy_message_sent = {|u ''bob''|}\<rparr>"

definition ninth_scan_agent :: agent where
  "ninth_scan_agent =
     (WhatsAppAgent_init 1700000000)\<lparr>scan_count := 9, processed_chats := {|u ''0_144''|}\<rparr>"

section \<open>Strings\<close>



section \<open>The responder\<close>

lemma gen_busy:
  assumes "is_new_contact L st C" "\<not> has_busy_message_been_sent L st C"
  shows "generate_ai_response L model st message C =
     (busy_reply, st\<lparr>known_contacts := finsert (clean_chat_name L C) (known_contacts st),
                     busy_message_sent := finsert (clean_chat_name L C) (busy_message_sent st)\<rparr>)"
  using assms
  by (simp add: generate_ai_response_def mark_contact_as_known_def mark_busy_message_sent_def)

lemma not_new_after_known: "\<not> is_new_contact L (mark_contact_as_known L st C) C"
  by (simp add: is_new_contact_def mark_contact_as_known_def)

lemma gen_normal:
  assumes "\<not> (is_new_contact L st C \<and> \<not> has_busy_message_been_sent L st C)"
  shows "generate_ai_response L model st message C =
     ((case model (user_prompt message) of Some content \<Rightarrow> py_strip content | None \<Rightarrow> fallback_reply),
      st\<lparr>known_contacts := finsert (clean_chat_name L C) (known_contacts st)\<rparr>)"
proof -
  let ?st1 = "mark_contact_as_known L st C"
  have fb: "ai_response_fallback L ?st1 C = (fallback_reply, mark_contact_as_known L ?st1 C)"
    using not_new_after_known [of L st C] by (simp add: ai_response_fallback_def)
  have idem: "mark_contact_as_known L ?st1 C = ?st1"
    by (simp add: mark_contact_as_known_def)
  have st1: "?st1 = st\<lparr>known_contacts := finsert (clean_chat_name L C) (known_contacts st)\<rparr>"
    by (simp add: mark_contact_as_known_def)
  have "generate_ai_response L model st message C =
      (case model (user_prompt message) of
         Some content \<Rightarrow> (py_strip content, ?st1)
       | None \<Rightarrow> ai_response_fallback L ?st1 C)"
    using assms unfolding generate_ai_response_def by (simp only: if_False)
  also have "\<dots> = ((case model (user_prompt message) of Some content \<Rightarrow> py_strip content | None \<Rightarrow> fallback_reply), ?st1)"
    by (simp add: fb idem split: option.split)
  finally show ?thesis by (simp only: st1)
qed


lemma busy_reply_codepoints:
  "busy_reply = [72, 105, 44, 32, 65, 107, 97, 115, 104, 32, 105, 115, 32, 98, 117, 115, 121, 46]"
  by (simp add: busy_reply_def u_def)

lemma clean_demo_maria: "clean_chat_name demo_lib (u ''Maria'') = u ''maria''"
  by (simp add: clean_chat_name_def demo_lib_def ascii_lower_def py_strip_def py_isspace_def u_def)

lemma clean_demo_chat: "clean_chat_name demo_lib (u ''Chat_120_340'') = u ''chat_120_340''"
  by (simp add: clean_chat_name_def demo_lib_def ascii_lower_def py_strip_def py_isspace_def u_def)

text \<open>
  C1. For every chat name \<open>C\<close> whose normalised name is in neither
  \<open>known_contacts\<close> nor \<open>busy_message_sent\<close> and is not a placeholder
  (\<open>chat_\<close>, \<open>unknown_\<close>), \<open>generate_ai_response\<close> returns exactly
  \<open>Hi, Akash is busy.\<close> for every message text and every behaviour of the model call,
  and afterwards the normalised name is in both sets.
\<close>

theorem first_message_busy_reply:
  assumes "clean_chat_name L C |\<notin>| known_contacts st"
    and "clean_chat_name L C |\<notin>| busy_message_sent st"
    and "\<not> startswith (clean_chat_name L C) (u ''chat_'')"
    and "\<not> startswith (clean_chat_name L C) (u ''unknown_'')"
  shows "fst (generate_ai_response L model st message C) = u ''Hi, Akash is busy.''
       \<and> clean_chat_name L C |\<in>| known_contacts (snd (generate_ai_response L model st message C))
       \<and> clean_chat_name L C |\<in>| busy_message_sent (snd (generate_ai_response L model st message C))"
proof -
  have new: "is_new_contact L st C"
    using assms(1,3,4) by (simp add: is_new_contact_def)
  have nb: "\<not> has_busy_message_been_sent L st C"
    using assms(2) by (simp add: has_busy_message_been_sent_def)
  show ?thesis
    by (simp add: gen_busy [OF new nb] busy_reply_def)
qed

theorem first_message_busy_reply_witness:
  "fst (generate_ai_response demo_lib (\<lambda>p. Some (u ''Yep'')) (WhatsAppAgent_init 0) (u ''hi'') (u ''Maria''))
     = u ''Hi, Akash is busy.''
   \<and> u ''maria'' |\<in>| known_contacts
        (snd (generate_ai_response demo_lib (\<lambda>p. Some (u ''Yep'')) (WhatsAppAgent_init 0) (u ''hi'') (u ''Maria'')))
   \<and> u ''maria'' |\<in>| busy_message_sent
        (snd (generate_ai_response demo_lib (\<lambda>p. Some (u ''Yep'')) (WhatsAppAgent_init 0) (u ''hi'') (u ''Maria'')))"
proof -
  have h1: "clean_chat_name demo_lib (u ''Maria'') |\<notin>| known_contacts (WhatsAppAgent_init 0)"
    by (simp add: WhatsAppAgent_init_def)
  have h2: "clean_chat_name demo_lib (u ''Maria'') |\<notin>| busy_message_sent (WhatsAppAgent_init 0)"
    by (simp add: WhatsAppAgent_init_def)
  have h3: "\<not> startswith (clean_chat_name demo_lib (u ''Maria'')) (u ''chat_'')"
    by (simp add: clean_demo_maria) (simp add: startswith_def u_def)
  have h4: "\<not> startswith (clean_chat_name demo_lib (u ''Maria'')) (u ''unknown_'')"
    by (simp add: clean_demo_maria) (simp add: startswith_def u_def)
  show ?thesis
    using first_message_busy_reply [OF h1 h2 h3 h4, of "\<lambda>p. Some (u ''Yep'')" "u ''hi''"]
    by (simp add: clean_demo_maria)
qed

text \<open>
  C9. For every chat whose normalised name starts with \<open>chat_\<close> or \<open>unknown_\<close>,
  \<open>is_new_contact\<close> is \<open>False\<close>, whatever \<open>known_contacts\<close> holds; the reply is
  then the model's text or the fixed fallback, and no busy notice is recorded.
\<close>

theorem placeholder_name_never_new:
  assumes "startswith (clean_chat_name L C) (u ''chat_'')
         \<or> startswith (clean_chat_name L C) (u ''unknown_'')"
  shows "is_new_contact L st C = False
       \<and> fst (generate_ai_response L model st message C) =
           (case model (user_prompt message) of
              Some content \<Rightarrow> py_strip content
            | None \<Rightarrow> fallback_reply)
       \<and> busy_message_sent (snd (generate_ai_response L model st message C)) = busy_message_sent st"
proof -
  have nn: "\<not> is_new_contact L st C"
    using assms by (auto simp add: is_new_contact_def)
  then have "\<not> (is_new_contact L st C \<and> \<not> has_busy_message_been_sent L st C)"
    by simp
  from gen_normal [OF this] nn show ?thesis
    by simp
qed

theorem placeholder_name_never_new_witness:
  "is_new_contact demo_lib (WhatsAppAgent_init 0) (u ''Chat_120_340'') = False
   \<and> fst (generate_ai_response demo_lib (\<lambda>p. None) (WhatsAppAgent_init 0) (u ''hi'') (u ''Chat_120_340''))
       = fallback_reply
   \<and> busy_message_sent
        (snd (generate_ai_response demo_lib (\<lambda>p. None) (WhatsAppAgent_init 0) (u ''hi'') (u ''Chat_120_340'')))
       = {||}"
proof -
  have h: "startswith (clean_chat_name demo_lib (u ''Chat_120_340'')) (u ''chat_'')
         \<or> startswith (clean_chat_name demo_lib (u ''Chat_120_340'')) (u ''unknown_'')"
    by (simp add: clean_demo_chat) (simp add: startswith_def u_def)
  show ?thesis
    using placeholder_name_never_new [OF h, of "WhatsAppAgent_init 0" "\<lambda>p. None" "u ''hi''"]
    by (simp add: WhatsAppAgent_init_def)
qed


section \<open>The own-message filters\<close>


lemma busy_reply_no_signature: "\<not> contains_any ai_signatures busy_reply"
  by (simp add: ai_signatures_def busy_reply_codepoints u_def startswith_def)

lemma busy_reply_no_indicator: "\<not> contains_any ai_indicators busy_reply"
  by (simp add: ai_indicators_def busy_reply_codepoints u_def startswith_def)

lemma busy_reply_strip: "py_strip busy_reply = busy_reply"
  by (simp add: busy_reply_codepoints py_strip_def py_isspace_def)

lemma collect_incoming_last:
  "collect_incoming ((texts @ [busy_reply], False) # rest) [] =
     filter (\<lambda>t. t \<noteq> []) (map py_strip texts) @ [busy_reply]"
  by (simp add: busy_reply_strip) (simp add: busy_reply_codepoints)

text \<open>
  C10. The canned busy reply is not caught by the own-message filters:
  \<open>is_message_from_user\<close> accepts \<open>Hi, Akash is busy.\<close>, and
  \<open>get_latest_incoming_message\<close> returns it whenever it is the last text the first
  working selector finds; the loop then goes on to treat it as a user message (it
  does not stop at the click, the missing-message or the own-message exit).
\<close>

theorem busy_reply_passes_filters:
  "is_message_from_user busy_reply
   \<and> busy_reply = u ''Hi, Akash is busy.''
   \<and> get_latest_incoming_message L ((texts @ [busy_reply], False) # rest) = Some busy_reply
   \<and> (click_ok env \<and> incoming env = (texts @ [busy_reply], False) # rest
        \<longrightarrow> fst (process_chat L env st) \<notin> {ClickFailed, NoValidMessage, OwnMessage})"
proof -
  have user: "is_message_from_user busy_reply"
    using busy_reply_no_signature
    by (simp add: is_message_from_user_def) (simp add: busy_reply_codepoints)
  have latest: "get_latest_incoming_message L ((texts @ [busy_reply], False) # rest) = Some busy_reply"
    unfolding get_latest_incoming_message_def collect_incoming_last
    using busy_reply_no_indicator
    by (simp add: Let_def) (simp add: busy_reply_codepoints)
  have nonempty: "busy_reply \<noteq> [] \<and> length (py_strip busy_reply) > 0"
    by (simp add: busy_reply_strip) (simp add: busy_reply_codepoints)
  have "fst (process_chat L env st) \<notin> {ClickFailed, NoValidMessage, OwnMessage}"
    if "click_ok env" and "incoming env = (texts @ [busy_reply], False) # rest"
    using that latest user nonempty
    by (simp add: process_chat_def Let_def split: option.split prod.split)
  with user latest show ?thesis by (simp add: busy_reply_def)
qed

lemma bucket_maria: "str_of_int (py_int 1700000045 div 60) = u ''28333334''"
  by (simp add: str_of_int_def digits_of_nat.simps py_int_def u_def)

lemma digest_maria_hi:
  "demo_hexdigest (u ''Maria::hi::28333334'') = Some (u ''792884534d2e689cb3c7e196e0b27ae4'')"
  by (simp add: demo_hexdigest_def md5_known_def)

lemma message_id_maria_hi:
  "create_message_id demo_lib (u ''hi'') (u ''Maria'') 1700000045 = Some (u ''792884534d2e'')"
proof -
  have "u ''Maria'' @ u ''::'' @ take 50 (u ''hi'') @ u ''::'' @ u ''28333334'' = u ''Maria::hi::28333334''"
    by (simp add: u_def)
  then show ?thesis
    by (simp add: create_message_id_def demo_lib_def bucket_maria digest_maria_hi) (simp add: u_def)
qed

theorem busy_reply_passes_filters_witness:
  "is_message_from_user (u ''Hi, Akash is busy.'')
   \<and> get_latest_incoming_message demo_lib [([u ''hi'', u ''Hi, Akash is busy.''], False)]
       = Some (u ''Hi, Akash is busy.'')
   \<and> fst (process_chat demo_lib
            (maria_env 1700000041 144 [u ''hi'', u ''Hi, Akash is busy.''] True [])
            (WhatsAppAgent_init 1700000000))
       \<notin> {ClickFailed, NoValidMessage, OwnMessage}"
  using busy_reply_passes_filters [of demo_lib "[u ''hi'']" "[]"
      "maria_env 1700000041 144 [u ''hi'', u ''Hi, Akash is busy.''] True []"
      "WhatsAppAgent_init 1700000000"]
  by (simp add: busy_reply_def maria_env_def)






section \<open>The contact ledger over the loop\<close>

lemma scan_ledgers:
  "known_contacts (snd (scan_for_unread_chats now sels st)) = known_contacts st
   \<and> busy_message_sent (snd (scan_for_unread_chats now sels st)) = busy_message_sent st
   \<and> processed_messages (snd (scan_for_unread_chats now sels st)) = processed_messages st
   \<and> chat_cooldowns (snd (scan_for_unread_chats now sels st)) = chat_cooldowns st"
  by (simp add: scan_for_unread_chats_def Let_def split: option.split prod.split)

lemma housekeeping_contacts:
  "known_contacts (housekeeping env st) = known_contacts st
   \<and> busy_message_sent (housekeeping env st) = busy_message_sent st"
  by (simp add: housekeeping_def)

lemma gen_cases:
  "generate_ai_response L model st message C =
     (if is_new_contact L st C \<and> \<not> has_busy_message_been_sent L st C
      then (busy_reply, st\<lparr>known_contacts := finsert (clean_chat_name L C) (known_contacts st),
                             busy_message_sent := finsert (clean_chat_name L C) (busy_message_sent st)\<rparr>)
      else ((case model (user_prompt message) of Some content \<Rightarrow> py_strip content | None \<Rightarrow> fallback_reply),
            st\<lparr>known_contacts := finsert (clean_chat_name L C) (known_contacts st)\<rparr>))"
proof (cases "is_new_contact L st C \<and> \<not> has_busy_message_been_sent L st C")
  case True
  then show ?thesis using gen_busy [of L st C model message] by (simp only: True if_True) simp
next
  case False
  show ?thesis unfolding gen_normal [OF False] by (simp only: False if_False)
qed

lemma gen_ledgers:
  assumes "generate_ai_response L model st message C = (reply, st')"
  shows "known_contacts st' = finsert (clean_chat_name L C) (known_contacts st)
       \<and> busy_message_sent st |\<subseteq>| busy_message_sent st'
       \<and> processed_messages st' = processed_messages st
       \<and> chat_cooldowns st' = chat_cooldowns st
       \<and> processed_chats st' = processed_chats st
       \<and> last_scan_time st' = last_scan_time st
       \<and> scan_count st' = scan_count st"
  using assms unfolding gen_cases by (auto split: if_splits)

lemma process_chat_contacts:
  "known_contacts st |\<subseteq>| known_contacts (snd (process_chat L env st))
   \<and> busy_message_sent st |\<subseteq>| busy_message_sent (snd (process_chat L env st))"
proof -
  have "known_contacts st |\<subseteq>| known_contacts st' \<and> busy_message_sent st |\<subseteq>| busy_message_sent st'"
    if "generate_ai_response L model st message C = (reply, st')" for model message C reply st'
    using gen_ledgers [OF that] by auto
  then show ?thesis
    by (auto simp add: process_chat_def Let_def split: option.split prod.split)
qed

lemma loop_tick_contacts:
  "known_contacts st |\<subseteq>| known_contacts (snd (loop_tick L env st))
   \<and> busy_message_sent st |\<subseteq>| busy_message_sent (snd (loop_tick L env st))"
proof -
  obtain unread st1 where scan: "scan_for_unread_chats (scan_time env) (chat_list env) st = (unread, st1)"
    by (cases "scan_for_unread_chats (scan_time env) (chat_list env) st")
  have st1: "known_contacts st1 = known_contacts st" "busy_message_sent st1 = busy_message_sent st"
    using scan_ledgers [of "scan_time env" "chat_list env" st] scan by simp_all
  obtain out st2 where proc: "process_chat L env st1 = (out, st2)"
    by (cases "process_chat L env st1")
  have st2: "known_contacts st1 |\<subseteq>| known_contacts st2" "busy_message_sent st1 |\<subseteq>| busy_message_sent st2"
    using process_chat_contacts [of st1 L env] proc by simp_all
  show ?thesis
    using st1 st2 housekeeping_contacts
    by (simp add: loop_tick_def scan proc split: list.split prod.split)
qed

lemma main_monitoring_loop_contacts:
  "known_contacts st |\<subseteq>| known_contacts (main_monitoring_loop L envs st)
   \<and> busy_message_sent st |\<subseteq>| busy_message_sent (main_monitoring_loop L envs st)"
proof (induction envs arbitrary: st)
  case Nil
  show ?case by simp
next
  case (Cons env envs)
  from Cons.IH [of "snd (loop_tick L env st)"] loop_tick_contacts [of st L env]
  show ?case by auto
qed

lemma fallback_not_busy: "fallback_reply \<noteq> busy_reply"
  by (simp add: fallback_reply_def busy_reply_def u_def)

text \<open>
  C2, as the code has it. For a contact whose normalised name is in
  \<open>busy_message_sent\<close>, \<open>generate_ai_response\<close> does not take the busy-reply branch
  again: its result is the text the model generated (stripped), whatever that text is,
  or, when the call fails, the fixed fallback, which differs from the busy reply. So the
  busy reply is returned again only when the model itself generates it. The contact is in
  both sets afterwards, and over any run of loop iterations \<open>known_contacts\<close> and
  \<open>busy_message_sent\<close> only grow.
\<close>

theorem busy_notice_never_repeated:
  assumes "clean_chat_name L C |\<in>| busy_message_sent st"
  shows "fst (generate_ai_response L model st message C) =
           (case model (user_prompt message) of
              Some content \<Rightarrow> py_strip content
            | None \<Rightarrow> fallback_reply)
       \<and> fallback_reply \<noteq> u ''Hi, Akash is busy.''
       \<and> (fst (generate_ai_response L model st message C) = u ''Hi, Akash is busy.''
            \<longrightarrow> (\<exists>content. model (user_prompt message) = Some content
                   \<and> py_strip content = u ''Hi, Akash is busy.''))
       \<and> clean_chat_name L C |\<in>| known_contacts (snd (generate_ai_response L model st message C))
       \<and> clean_chat_name L C |\<in>| busy_message_sent (snd (generate_ai_response L model st message C))
       \<and> known_contacts st |\<subseteq>| known_contacts (main_monitoring_loop L envs st)
       \<and> busy_message_sent st |\<subseteq>| busy_message_sent (main_monitoring_loop L envs st)"
proof -
  have "\<not> (is_new_contact L st C \<and> \<not> has_busy_message_been_sent L st C)"
    using assms by (simp add: has_busy_message_been_sent_def)
  note gen = gen_normal [OF this, of model message]
  have result: "fst (generate_ai_response L model st message C) =
           (case model (user_prompt message) of
              Some content \<Rightarrow> py_strip content
            | None \<Rightarrow> fallback_reply)"
    by (simp add: gen)
  have fb: "fallback_reply \<noteq> u ''Hi, Akash is busy.''"
    using fallback_not_busy by (simp add: busy_reply_def)
  have only_model: "\<exists>content. model (user_prompt message) = Some content
                   \<and> py_strip content = u ''Hi, Akash is busy.''"
    if "fst (generate_ai_response L model st message C) = u ''Hi, Akash is busy.''"
    using that fb unfolding result by (cases "model (user_prompt message)") simp_all
  have sets: "clean_chat_name L C |\<in>| known_contacts (snd (generate_ai_response L model st message C))
       \<and> clean_chat_name L C |\<in>| busy_message_sent (snd (generate_ai_response L model st message C))"
    using assms by (simp add: gen)
  from result fb only_model sets main_monitoring_loop_contacts [of st L envs]
  show ?thesis by blast
qed

text \<open>
  C2 as stated fails: Maria has had her busy notice, and the model answers her next
  message with the very words of the busy notice; \<open>generate_ai_response\<close> returns them.
\<close>

theorem model_text_can_repeat_busy_notice:
  "clean_chat_name demo_lib (u ''Maria'')
     |\<in>| busy_message_sent
           ((WhatsAppAgent_init 1700000000)\<lparr>known_contacts := {|u ''maria''|},
                                             busy_message_sent := {|u ''maria''|}\<rparr>)
   \<and> fst (generate_ai_response demo_lib (model_says (u ''Hi, Akash is busy.''))
          ((WhatsAppAgent_init 1700000000)\<lparr>known_contacts := {|u ''maria''|},
                                            busy_message_sent := {|u ''maria''|}\<rparr>)
          (u ''are you there?'') (u ''Maria''))
     = u ''Hi, Akash is busy.''"
proof -
  let ?st = "(WhatsAppAgent_init 1700000000)\<lparr>known_contacts := {|u ''maria''|},
                                             busy_message_sent := {|u ''maria''|}\<rparr>"
  have sent: "clean_chat_name demo_lib (u ''Maria'') |\<in>| busy_message_sent ?st"
    by (simp add: clean_demo_maria)
  then have "\<not> (is_new_contact demo_lib ?st (u ''Maria'')
      \<and> \<not> has_busy_message_been_sent demo_lib ?st (u ''Maria''))"
    by (simp add: has_busy_message_been_sent_def)
  from gen_normal [OF this, of "model_says (u ''Hi, Akash is busy.'')" "u ''are you there?''"]
    busy_reply_strip sent
  show ?thesis
    by (simp add: model_says_def busy_reply_def)
qed

theorem busy_notice_never_repeated_witness:
  "fst (generate_ai_response demo_lib (\<lambda>prompt. Some (u ''Yep, what's up?''))
          ((WhatsAppAgent_init 1700000000)\<lparr>known_contacts := {|u ''maria''|}, busy_message_sent := {|u ''maria''|}\<rparr>)
          (u ''are you there?'') (u ''Maria''))
     = u ''Yep, what's up?''
   \<and> {|u ''maria''|} |\<subseteq>| busy_message_sent
        (main_monitoring_loop demo_lib [maria_env 1700000041 144 [u ''hi''] True []]
          ((WhatsAppAgent_init 1700000000)\<lparr>known_contacts := {|u ''maria''|}, busy_message_sent := {|u ''maria''|}\<rparr>))"
proof -
  let ?st = "(WhatsAppAgent_init 1700000000)\<lparr>known_contacts := {|u ''maria''|}, busy_message_sent := {|u ''maria''|}\<rparr>"
  have h: "clean_chat_name demo_lib (u ''Maria'') |\<in>| busy_message_sent ?st"
    by (simp add: clean_demo_maria)
  have strip: "py_strip (u ''Yep, what's up?'') = u ''Yep, what's up?''"
    by (simp add: py_strip_def py_isspace_def u_def)
  show ?thesis
    using busy_notice_never_repeated [OF h, of "\<lambda>prompt. Some (u ''Yep, what's up?'')" "u ''are you there?''"
        "[maria_env 1700000041 144 [u ''hi''] True []]"]
    by (simp add: strip)
qed

section \<open>Evaluating the concrete iteration\<close>

lemma header_maria: "get_current_chat_name [Some (u ''Maria'')] now = u ''Maria''"
  by (simp add: get_current_chat_name_def py_strip_def py_isspace_def u_def)

lemma latest_hi: "get_latest_incoming_message L [([u ''hi''], False)] = Some (u ''hi'')"
  by (simp add: get_latest_incoming_message_def Let_def py_strip_def py_isspace_def u_def
      ai_indicators_def startswith_def)

lemma hi_from_user: "is_message_from_user (u ''hi'')"
  by (simp add: is_message_from_user_def ai_signatures_def u_def startswith_def)

lemma hi_nonempty: "u ''hi'' \<noteq> [] \<and> length (py_strip (u ''hi'')) > 0"
  by (simp add: py_strip_def py_isspace_def u_def)

lemma maria_env_fields:
  "scan_time (maria_env t y msgs ok order) = t"
  "chat_list (maria_env t y msgs ok order) = [None, Some [Some (maria_row y)]]"
  "click_ok (maria_env t y msgs ok order) = True"
  "header_names (maria_env t y msgs ok order) = [Some (u ''Maria'')]"
  "header_time (maria_env t y msgs ok order) = t + 4"
  "incoming (maria_env t y msgs ok order) = [(msgs, False)]"
  "id_time (maria_env t y msgs ok order) = t + 4"
  "send_ok (maria_env t y msgs ok order) = ok"
  "sent_time (maria_env t y msgs ok order) = t + 7"
  "cleanup_order (maria_env t y msgs ok order) = order"
  "cleanup_time (maria_env t y msgs ok order) = t + 10"
  by (simp_all add: maria_env_def)

lemma process_maria:
  assumes "u ''792884534d2e'' |\<notin>| processed_messages st"
  shows "process_chat demo_lib (maria_env 1700000041 y [u ''hi''] ok order) st =
     (let (ai_reply, st1) = generate_ai_response demo_lib (\<lambda>prompt. Some (u ''Yep, what's up?'')) st (u ''hi'') (u ''Maria'')
      in if ok
         then (Replied ai_reply,
               st1\<lparr>processed_messages := finsert (u ''792884534d2e'') (processed_messages st1),
                   chat_cooldowns := (chat_cooldowns st1)(u ''Maria'' \<mapsto> 1700000048)\<rparr>)
         else (SendFailed ai_reply, st1))"
  using assms hi_from_user hi_nonempty
  by (simp add: process_chat_def maria_env_def header_maria latest_hi message_id_maria_hi Let_def
      split: prod.split)

lemma init_fields:
  "processed_messages (WhatsAppAgent_init now) = {||}"
  "processed_chats (WhatsAppAgent_init now) = {||}"
  "chat_cooldowns (WhatsAppAgent_init now) = Map.empty"
  "last_scan_time (WhatsAppAgent_init now) = now"
  "scan_count (WhatsAppAgent_init now) = 0"
  "known_contacts (WhatsAppAgent_init now) = {||}"
  "busy_message_sent (WhatsAppAgent_init now) = {||}"
  by (simp_all add: WhatsAppAgent_init_def)

lemma gen_maria_first:
  "generate_ai_response demo_lib model (WhatsAppAgent_init now) message (u ''Maria'') =
     (busy_reply, (WhatsAppAgent_init now)\<lparr>known_contacts := {|u ''maria''|}, busy_message_sent := {|u ''maria''|}\<rparr>)"
proof -
  have "is_new_contact demo_lib (WhatsAppAgent_init now) (u ''Maria'')"
    by (simp add: is_new_contact_def clean_demo_maria init_fields) (simp add: startswith_def u_def)
  moreover have "\<not> has_busy_message_been_sent demo_lib (WhatsAppAgent_init now) (u ''Maria'')"
    by (simp add: has_busy_message_been_sent_def init_fields)
  ultimately show ?thesis
    by (simp add: gen_busy clean_demo_maria init_fields)
qed

text \<open>
  C4, as the code has it. When the send fails, \<open>processed_messages\<close> and
  \<open>chat_cooldowns\<close> are as they were before the message was processed, and the
  message's id is not in \<open>processed_messages\<close>, so a later iteration processes it
  again; \<open>known_contacts\<close> has gained the contact, since the reply was generated before
  the send.
\<close>

theorem failed_send_keeps_fingerprints:
  assumes "process_chat L env st = (SendFailed reply, st')"
  shows "processed_messages st' = processed_messages st
       \<and> chat_cooldowns st' = chat_cooldowns st
       \<and> (\<exists>message message_id.
             get_latest_incoming_message L (incoming env) = Some message
           \<and> create_message_id L message
                 (get_current_chat_name (header_names env) (header_time env)) (id_time env) = Some message_id
           \<and> message_id |\<notin>| processed_messages st')
       \<and> known_contacts st' =
           finsert (clean_chat_name L (get_current_chat_name (header_names env) (header_time env)))
             (known_contacts st)"
proof -
  let ?C = "get_current_chat_name (header_names env) (header_time env)"
  from assms obtain message message_id ai_reply where
    m: "get_latest_incoming_message L (incoming env) = Some message"
    and i: "create_message_id L message ?C (id_time env) = Some message_id"
    and n: "message_id |\<notin>| processed_messages st"
    and g: "generate_ai_response L (api env) st message ?C = (ai_reply, st')"
    by (auto simp add: process_chat_def Let_def split: if_splits option.splits prod.splits)
  from gen_ledgers [OF g] m i n show ?thesis by simp
qed

theorem failed_send_keeps_fingerprints_witness:
  "processed_messages
     (snd (process_chat demo_lib (maria_env 1700000041 144 [u ''hi''] False []) (WhatsAppAgent_init 1700000000)))
     = {||}
   \<and> known_contacts
     (snd (process_chat demo_lib (maria_env 1700000041 144 [u ''hi''] False []) (WhatsAppAgent_init 1700000000)))
     = {|u ''maria''|}"
proof -
  have h: "process_chat demo_lib (maria_env 1700000041 144 [u ''hi''] False []) (WhatsAppAgent_init 1700000000)
      = (SendFailed busy_reply,
         (WhatsAppAgent_init 1700000000)\<lparr>known_contacts := {|u ''maria''|}, busy_message_sent := {|u ''maria''|}\<rparr>)"
    by (simp add: process_maria gen_maria_first init_fields)
  show ?thesis
    using failed_send_keeps_fingerprints [OF h]
    by (simp add: h maria_env_fields header_maria clean_demo_maria init_fields)
qed

text \<open>
  C4 as stated fails: Maria's first message with a failing send leaves her in
  \<open>known_contacts\<close> and \<open>busy_message_sent\<close>, both empty before.
\<close>

theorem failed_send_marks_contact:
  "fst (process_chat demo_lib (maria_env 1700000041 144 [u ''hi''] False []) (WhatsAppAgent_init 1700000000))
     = SendFailed (u ''Hi, Akash is busy.'')
   \<and> known_contacts (WhatsAppAgent_init 1700000000) = {||}
   \<and> busy_message_sent (WhatsAppAgent_init 1700000000) = {||}
   \<and> known_contacts
        (snd (process_chat demo_lib (maria_env 1700000041 144 [u ''hi''] False []) (WhatsAppAgent_init 1700000000)))
       = {|u ''maria''|}
   \<and> busy_message_sent
        (snd (process_chat demo_lib (maria_env 1700000041 144 [u ''hi''] False []) (WhatsAppAgent_init 1700000000)))
       = {|u ''maria''|}"
  by (simp add: process_maria gen_maria_first init_fields busy_reply_def)

section \<open>Eviction of processed messages\<close>

lemma discard_all_eq: "discard_all old_messages pm = pm |-| fset_of_list old_messages"
  unfolding discard_all_def
  by (induction old_messages arbitrary: pm) auto

lemma fcard_fset_of_list: "distinct xs \<Longrightarrow> fcard (fset_of_list xs) = length xs"
  by (simp add: fcard.rep_eq fset_of_list.rep_eq distinct_card)

lemma cleanup_processed_small: "fcard pm \<le> 100 \<Longrightarrow> cleanup_processed order pm = pm"
  by (simp add: cleanup_processed_def)

lemma cleanup_processed_big:
  assumes "fcard pm > 100" "distinct order" "fset_of_list order = pm"
  shows "cleanup_processed order pm = pm |-| fset_of_list (take 50 order)"
    and "fcard (cleanup_processed order pm) = fcard pm - 50"
proof -
  show eq: "cleanup_processed order pm = pm |-| fset_of_list (take 50 order)"
    using assms(1) by (simp add: cleanup_processed_def discard_all_eq)
  have len: "length order = fcard pm"
    using fcard_fset_of_list [OF assms(2)] assms(3) by simp
  have d: "distinct (take 50 order)"
    using assms(2) by simp
  have sub: "fset_of_list (take 50 order) |\<subseteq>| pm"
    using assms(3) by (auto simp add: fset_of_list_elem dest: in_set_takeD)
  have "fcard (fset_of_list (take 50 order)) = 50"
    using fcard_fset_of_list [OF d] len assms(1) by simp
  with fcard_funion_fsubset [OF sub] eq
  show "fcard (cleanup_processed order pm) = fcard pm - 50" by simp
qed

text \<open>
  C8. When \<open>processed_messages\<close> holds more than 100 entries at the cleanup step, the
  step removes exactly the first 50 entries of the set's enumeration, so the set shrinks
  by 50 (from 101 entries to 51) and stays a subset of what it was. The step is a total
  function of the state: \<^verbatim>\<open>discard\<close> does not raise.
\<close>

theorem housekeeping_evicts_fifty:
  assumes "fcard (processed_messages st) > 100"
    and "distinct (cleanup_order env)"
    and "fset_of_list (cleanup_order env) = processed_messages st"
  shows "fcard (processed_messages (housekeeping env st)) = fcard (processed_messages st) - 50
       \<and> processed_messages (housekeeping env st) |\<subseteq>| processed_messages st
       \<and> fcard (processed_messages (housekeeping env st)) < fcard (processed_messages st)"
  using cleanup_processed_big [OF assms] assms(1)
  by (auto simp add: housekeeping_def)

lemma hexdigit_inj: "hexdigit a = hexdigit b \<Longrightarrow> a = b"
  by (auto simp add: hexdigit_def split: if_splits)

lemma hex_le_inj: "hex_le k m = hex_le k n \<Longrightarrow> m < 16 ^ k \<Longrightarrow> n < 16 ^ k \<Longrightarrow> m = n"
proof (induction k arbitrary: m n)
  case 0
  then show ?case by simp
next
  case (Suc k)
  from Suc.prems(1) have h: "hexdigit (m mod 16) = hexdigit (n mod 16)"
    and t: "hex_le k (m div 16) = hex_le k (n div 16)"
    by (simp_all add: hex_le.simps [of "Suc k"])
  from Suc.prems(2,3) have "m div 16 < 16 ^ k" "n div 16 < 16 ^ k"
    by (simp_all add: less_mult_imp_div_less mult.commute)
  from Suc.IH [OF t this] hexdigit_inj [OF h] show ?case
    by (metis div_mult_mod_eq)
qed

lemma stored_ids_distinct: "n \<le> 16 ^ 12 \<Longrightarrow> distinct (stored_ids n)"
  unfolding stored_ids_def distinct_map
  by (auto intro!: inj_onI dest!: hex_le_inj)

lemma stored_ids_length: "length (stored_ids n) = n"
  by (simp add: stored_ids_def)

theorem housekeeping_evicts_fifty_witness:
  "fcard (processed_messages
     (housekeeping (maria_env 1700000041 144 [u ''hi''] True (stored_ids 101))
        ((WhatsAppAgent_init 1700000000)\<lparr>processed_messages := fset_of_list (stored_ids 101)\<rparr>))) = 51"
proof -
  let ?env = "maria_env 1700000041 144 [u ''hi''] True (stored_ids 101)"
  let ?st = "(WhatsAppAgent_init 1700000000)\<lparr>processed_messages := fset_of_list (stored_ids 101)\<rparr>"
  have d: "distinct (stored_ids 101)"
    by (rule stored_ids_distinct) simp
  have c: "fcard (processed_messages ?st) = 101"
    using fcard_fset_of_list [OF d] by (simp add: stored_ids_length)
  have h1: "fcard (processed_messages ?st) > 100"
    using c by simp
  have h2: "distinct (cleanup_order ?env)"
    using d by (simp add: maria_env_fields)
  have h3: "fset_of_list (cleanup_order ?env) = processed_messages ?st"
    by (simp add: maria_env_fields)
  show ?thesis
    using housekeeping_evicts_fifty [OF h1 h2 h3] c by simp
qed

section \<open>The scanner\<close>

lemma scan_too_early:
  assumes "now - last_scan_time st < SCAN_COOLDOWN"
  shows "scan_for_unread_chats now sels st = ([], st)"
  using assms by (simp add: scan_for_unread_chats_def)

lemma scan_without_rows:
  assumes "\<not> now - last_scan_time st < SCAN_COOLDOWN" and "first_working sels = []"
  shows "scan_for_unread_chats now sels st =
           ([], st\<lparr>last_scan_time := now, scan_count := scan_count st + 1\<rparr>)"
  using assms by (simp add: scan_for_unread_chats_def)

lemma scan_with_rows_tenth:
  assumes "\<not> now - last_scan_time st < SCAN_COOLDOWN" and "first_working sels \<noteq> []"
    and "(scan_count st + 1) mod 10 = 0"
  shows "processed_chats (snd (scan_for_unread_chats now sels st)) = {||}"
  using assms by (simp add: scan_for_unread_chats_def Let_def split: option.split prod.split)

text \<open>
  C7. The tenth scan is meant to clear \<open>processed_chats\<close>, and does whenever it finds
  chat rows (\<open>scan_with_rows_tenth\<close>). When no selector finds a row it returns before
  the clearing step: after the tenth scan of \<open>ninth_scan_agent\<close>, with an empty chat
  list, the remembered row is still there.
\<close>

theorem tenth_scan_without_rows_keeps_cache:
  "scan_count (snd (scan_for_unread_chats 1700000041 [Some [], Some [], Some [], Some []] ninth_scan_agent)) = 10
   \<and> processed_chats
        (snd (scan_for_unread_chats 1700000041 [Some [], Some [], Some [], Some []] ninth_scan_agent))
       = {|u ''0_144''|}"
proof -
  have "\<not> 1700000041 - last_scan_time ninth_scan_agent < SCAN_COOLDOWN"
    by (simp add: ninth_scan_agent_def init_fields SCAN_COOLDOWN_def)
  moreover have "first_working [Some [], Some [], Some [], Some ([] :: chat_row option list)] = []"
    by simp
  ultimately show ?thesis
    by (simp add: scan_without_rows) (simp add: ninth_scan_agent_def)
qed

theorem tenth_scan_without_rows_keeps_cache_witness:
  "processed_chats
     (snd (scan_for_unread_chats 1700000041 [Some [], Some [], Some [], Some []] ninth_scan_agent))
     \<noteq> {||}"
  using tenth_scan_without_rows_keeps_cache by simp

section \<open>The per-chat cooldown\<close>

lemma find_unread_skips_cooldown:
  assumes "chat_cooldowns st C = Some last_reply" and "now - last_reply < MESSAGE_COOLDOWN"
    and "find_unread now st rows = Some (chat, chat_name, chat_id)"
  shows "chat_name \<noteq> C"
  using assms
proof (induction now st rows rule: find_unread.induct)
  case (1 current_time st)
  then show ?case by simp
next
  case (2 current_time st rest)
  then show ?case by simp
next
  case (3 current_time st row rest)
  then show ?case
    by (auto split: if_splits option.splits)
qed

lemma scan_skips_cooldown:
  assumes "chat_cooldowns st C = Some last_reply" and "now - last_reply < MESSAGE_COOLDOWN"
  shows "\<forall>(chat, chat_name, chat_id) \<in> set (fst (scan_for_unread_chats now sels st)). chat_name \<noteq> C"
proof -
  let ?st1 = "st\<lparr>last_scan_time := now, scan_count := scan_count st + 1\<rparr>"
  have cd: "chat_cooldowns ?st1 C = Some last_reply"
    using assms(1) by simp
  have "chat_name \<noteq> C"
    if "find_unread now ?st1 (take 20 (first_working sels)) = Some (chat, chat_name, chat_id)"
    for chat chat_name chat_id
    using find_unread_skips_cooldown [OF cd assms(2) that] .
  then show ?thesis
    by (auto simp add: scan_for_unread_chats_def Let_def split: if_splits option.splits prod.splits)
qed

lemma process_chat_cooldowns:
  "chat_cooldowns (snd (process_chat L env st)) = chat_cooldowns st
   \<or> (\<exists>reply. fst (process_chat L env st) = Replied reply)
     \<and> chat_cooldowns (snd (process_chat L env st)) =
         (chat_cooldowns st)(get_current_chat_name (header_names env) (header_time env) \<mapsto> sent_time env)"
proof -
  have "chat_cooldowns st' = chat_cooldowns st"
    if "generate_ai_response L model st message C = (reply, st')" for model message C reply st'
    using gen_ledgers [OF that] by simp
  then show ?thesis
    by (auto simp add: process_chat_def Let_def split: option.split prod.split)
qed

lemma process_chat_replied:
  assumes "process_chat L env st = (Replied reply, st')"
  shows "chat_cooldowns st' (get_current_chat_name (header_names env) (header_time env)) = Some (sent_time env)"
  using assms
  by (auto simp add: process_chat_def Let_def split: if_splits option.splits prod.splits)

lemma housekeeping_cooldown:
  assumes "chat_cooldowns st C = Some ts" and "cleanup_time env - ts \<le> 30"
  shows "chat_cooldowns (housekeeping env st) C = Some ts"
  using assms by (simp add: housekeeping_def cleanup_cooldowns_def MESSAGE_COOLDOWN_def)

lemma loop_tick_replied:
  assumes "loop_tick L env st = (Replied reply, st')" and "cleanup_time env - sent_time env \<le> 30"
  shows "chat_cooldowns st' (get_current_chat_name (header_names env) (header_time env)) = Some (sent_time env)"
proof -
  obtain unread st1 where scan: "scan_for_unread_chats (scan_time env) (chat_list env) st = (unread, st1)"
    by (cases "scan_for_unread_chats (scan_time env) (chat_list env) st")
  obtain out st2 where proc: "process_chat L env st1 = (out, st2)"
    by (cases "process_chat L env st1")
  from assms(1) have out: "out = Replied reply" and st': "st' = housekeeping env st2"
    by (auto simp add: loop_tick_def scan proc split: list.splits if_splits)
  from process_chat_replied [of L env st1 reply st2] proc out
  have "chat_cooldowns st2 (get_current_chat_name (header_names env) (header_time env)) = Some (sent_time env)"
    by simp
  from housekeeping_cooldown [OF this assms(2)] st' show ?thesis by simp
qed

lemma loop_tick_keeps_cooling:
  assumes "chat_cooldowns st C = Some ts" and "t0 \<le> ts"
    and "t0 \<le> sent_time env" and "cleanup_time env - t0 \<le> 30"
  shows "\<exists>ts'. chat_cooldowns (snd (loop_tick L env st)) C = Some ts' \<and> t0 \<le> ts'"
proof -
  obtain unread st1 where scan: "scan_for_unread_chats (scan_time env) (chat_list env) st = (unread, st1)"
    by (cases "scan_for_unread_chats (scan_time env) (chat_list env) st")
  have st1: "chat_cooldowns st1 = chat_cooldowns st"
    using scan_ledgers [of "scan_time env" "chat_list env" st] scan by simp
  obtain out st2 where proc: "process_chat L env st1 = (out, st2)"
    by (cases "process_chat L env st1")
  have keep: "\<exists>ts'. chat_cooldowns s C = Some ts' \<and> t0 \<le> ts' \<Longrightarrow>
      \<exists>ts'. chat_cooldowns (housekeeping env s) C = Some ts' \<and> t0 \<le> ts'" for s
  proof -
    assume "\<exists>ts'. chat_cooldowns s C = Some ts' \<and> t0 \<le> ts'"
    then obtain ts' where s: "chat_cooldowns s C = Some ts'" "t0 \<le> ts'" by blast
    with assms(4) have "cleanup_time env - ts' \<le> 30" by simp
    from housekeeping_cooldown [OF s(1) this] s(2) show ?thesis by blast
  qed
  have a1: "\<exists>ts'. chat_cooldowns st1 C = Some ts' \<and> t0 \<le> ts'"
    using assms(1,2) st1 by simp
  have a2: "\<exists>ts'. chat_cooldowns st2 C = Some ts' \<and> t0 \<le> ts'"
    using process_chat_cooldowns [of L env st1] proc a1 assms(3) by auto
  show ?thesis
    using keep [OF a1] keep [OF a2] a2
    by (simp add: loop_tick_def scan proc split: list.split)
qed

lemma main_monitoring_loop_keeps_cooling:
  assumes "chat_cooldowns st C = Some ts" and "t0 \<le> ts"
    and "\<forall>e \<in> set envs. t0 \<le> sent_time e \<and> cleanup_time e - t0 \<le> 30"
  shows "\<exists>ts'. chat_cooldowns (main_monitoring_loop L envs st) C = Some ts' \<and> t0 \<le> ts'"
  using assms
proof (induction envs arbitrary: st ts)
  case Nil
  then show ?case by simp
next
  case (Cons env envs)
  from Cons.prems(3) have e: "t0 \<le> sent_time env" "cleanup_time env - t0 \<le> 30"
    and rest: "\<forall>e \<in> set envs. t0 \<le> sent_time e \<and> cleanup_time e - t0 \<le> 30"
    by simp_all
  from loop_tick_keeps_cooling [OF Cons.prems(1,2) e, of L]
  obtain ts' where "chat_cooldowns (snd (loop_tick L env st)) C = Some ts'" "t0 \<le> ts'" by blast
  from Cons.IH [OF this rest] show ?case by simp
qed

text \<open>
  C6. After an iteration that replied to the chat named \<open>C\<close> (recording the clock
  reading \<open>sent_time\<close> in \<open>chat_cooldowns\<close>), and after any further iterations, a scan
  at a time \<open>now\<close> less than \<open>MESSAGE_COOLDOWN\<close> after that reading surfaces no row
  whose resolved name is \<open>C\<close>, whatever the rows show. The clock readings are taken in
  the order the code takes them: later sends are not earlier than the first one, and the
  cleanups before the scan are not later than \<open>now\<close>.
\<close>

theorem cooldown_hides_chat:
  assumes "loop_tick L env st = (Replied reply, st')"
    and "cleanup_time env \<le> now"
    and "\<forall>e \<in> set envs. sent_time env \<le> sent_time e \<and> cleanup_time e \<le> now"
    and "now - sent_time env < MESSAGE_COOLDOWN"
  shows "chat_cooldowns st' (get_current_chat_name (header_names env) (header_time env)) = Some (sent_time env)
       \<and> (\<forall>(chat, chat_name, chat_id)
             \<in> set (fst (scan_for_unread_chats now sels (main_monitoring_loop L envs st'))).
            chat_name \<noteq> get_current_chat_name (header_names env) (header_time env))"
proof -
  let ?C = "get_current_chat_name (header_names env) (header_time env)"
  have w: "now - sent_time env < 15"
    using assms(4) by (simp add: MESSAGE_COOLDOWN_def)
  with assms(2) have "cleanup_time env - sent_time env \<le> 30" by simp
  from loop_tick_replied [OF assms(1) this]
  have first: "chat_cooldowns st' ?C = Some (sent_time env)" .
  have "\<forall>e \<in> set envs. sent_time env \<le> sent_time e \<and> cleanup_time e - sent_time env \<le> 30"
    using assms(3) w by auto
  from main_monitoring_loop_keeps_cooling [OF first order_refl this, of L]
  obtain ts' where ts': "chat_cooldowns (main_monitoring_loop L envs st') ?C = Some ts'"
    and le: "sent_time env \<le> ts'" by blast
  have "now - ts' < MESSAGE_COOLDOWN"
    using le assms(4) by simp
  from scan_skips_cooldown [OF ts' this] first show ?thesis by simp
qed

section \<open>Evaluating the scan and the reply on the concrete iteration\<close>

lemma chat_id_maria: "chat_id_of (maria_row 144) = u ''0_144''" "chat_id_of (maria_row 72) = u ''0_72''"
  by (simp_all add: chat_id_of_def maria_row_def str_of_int_def digits_of_nat.simps u_def)

lemma find_unread_maria:
  assumes "chat_id_of (maria_row y) |\<notin>| processed_chats st"
    and "\<forall>ts. chat_cooldowns st (u ''Maria'') = Some ts \<longrightarrow> \<not> t - ts < MESSAGE_COOLDOWN"
  shows "find_unread t st [Some (maria_row y)] = Some (maria_row y, u ''Maria'', chat_id_of (maria_row y))"
proof -
  have row: "is_displayed (maria_row y)" "\<not> height (maria_row y) \<le> 10" "has_unread (maria_row y)"
    "row_name (maria_row y) = u ''Maria''"
    by (simp_all add: maria_row_def)
  show ?thesis
    using assms by (simp add: row split: option.split)
qed

lemma scan_maria:
  assumes "\<not> t - last_scan_time st < SCAN_COOLDOWN"
    and "chat_id_of (maria_row y) |\<notin>| processed_chats st"
    and "\<forall>ts. chat_cooldowns st (u ''Maria'') = Some ts \<longrightarrow> \<not> t - ts < MESSAGE_COOLDOWN"
    and "(scan_count st + 1) mod 10 \<noteq> 0"
  shows "scan_for_unread_chats t [None, Some [Some (maria_row y)]] st =
     ([(maria_row y, u ''Maria'', chat_id_of (maria_row y))],
      st\<lparr>last_scan_time := t, scan_count := scan_count st + 1,
          processed_chats := finsert (chat_id_of (maria_row y)) (processed_chats st)\<rparr>)"
proof -
  let ?st1 = "st\<lparr>last_scan_time := t, scan_count := scan_count st + 1\<rparr>"
  have "find_unread t ?st1 [Some (maria_row y)] = Some (maria_row y, u ''Maria'', chat_id_of (maria_row y))"
    using assms(2,3) by (intro find_unread_maria) simp_all
  then show ?thesis
    using assms(1,4) by (simp add: scan_for_unread_chats_def)
qed

lemma message_id_maria_bucket:
  assumes "py_int now div 60 = 28333334"
  shows "create_message_id demo_lib (u ''hi'') (u ''Maria'') now = Some (u ''792884534d2e'')"
proof -
  have b: "str_of_int 28333334 = u ''28333334''"
    by (simp add: str_of_int_def digits_of_nat.simps u_def)
  have "u ''Maria'' @ u ''::'' @ take 50 (u ''hi'') @ u ''::'' @ u ''28333334'' = u ''Maria::hi::28333334''"
    by (simp add: u_def)
  then show ?thesis
    by (simp add: create_message_id_def demo_lib_def assms b digest_maria_hi) (simp add: u_def)
qed

lemma process_maria_at:
  assumes "py_int (t + 4) div 60 = 28333334"
    and "u ''792884534d2e'' |\<notin>| processed_messages st"
  shows "process_chat demo_lib (maria_env t y [u ''hi''] ok order) st =
     (let (ai_reply, st1) = generate_ai_response demo_lib (\<lambda>prompt. Some (u ''Yep, what's up?'')) st (u ''hi'') (u ''Maria'')
      in if ok
         then (Replied ai_reply,
               st1\<lparr>processed_messages := finsert (u ''792884534d2e'') (processed_messages st1),
                   chat_cooldowns := (chat_cooldowns st1)(u ''Maria'' \<mapsto> t + 7)\<rparr>)
         else (SendFailed ai_reply, st1))"
  using assms(2) hi_from_user hi_nonempty message_id_maria_bucket [OF assms(1)]
  by (simp add: process_chat_def maria_env_def header_maria latest_hi Let_def
      split: prod.split)


lemma bucket_41: "py_int (1700000041 + 4) div 60 = 28333334"
  by (simp add: py_int_def)

lemma bucket_64: "py_int (1700000064 + 4) div 60 = 28333334"
  by (simp add: py_int_def)

lemma stored_id_third: "n < 256 \<Longrightarrow> hex_le 12 n ! 2 = 48"
  by (simp add: hex_le.simps [of 12] hex_le.simps [of 11] hex_le.simps [of 10] hexdigit_def)

lemma maria_id_not_stored: "u ''792884534d2e'' \<notin> set (stored_ids 100)"
proof
  assume "u ''792884534d2e'' \<in> set (stored_ids 100)"
  then obtain n where "n < 100" "u ''792884534d2e'' = hex_le 12 n"
    by (auto simp add: stored_ids_def)
  with stored_id_third [of n] have "u ''792884534d2e'' ! 2 = 48" by simp
  then show False by (simp add: u_def)
qed

lemma gen_maria_new:
  assumes "u ''maria'' |\<notin>| known_contacts st" and "u ''maria'' |\<notin>| busy_message_sent st"
  shows "generate_ai_response demo_lib model st message (u ''Maria'') =
     (busy_reply, st\<lparr>known_contacts := finsert (u ''maria'') (known_contacts st),
                     busy_message_sent := finsert (u ''maria'') (busy_message_sent st)\<rparr>)"
proof -
  have "is_new_contact demo_lib st (u ''Maria'')"
    using assms(1) by (simp add: is_new_contact_def clean_demo_maria) (simp add: startswith_def u_def)
  moreover have "\<not> has_busy_message_been_sent demo_lib st (u ''Maria'')"
    using assms(2) by (simp add: has_busy_message_been_sent_def clean_demo_maria)
  ultimately show ?thesis
    by (simp add: gen_busy clean_demo_maria)
qed

lemma gen_maria_known:
  assumes "u ''maria'' |\<in>| known_contacts st"
  shows "generate_ai_response demo_lib (\<lambda>prompt. Some (u ''Yep, what's up?'')) st message (u ''Maria'') =
     (u ''Yep, what's up?'', st)"
proof -
  have "\<not> (is_new_contact demo_lib st (u ''Maria'') \<and> \<not> has_busy_message_been_sent demo_lib st (u ''Maria''))"
    using assms by (simp add: is_new_contact_def clean_demo_maria)
  moreover have "py_strip (u ''Yep, what's up?'') = u ''Yep, what's up?''"
    by (simp add: py_strip_def py_isspace_def u_def)
  moreover have "finsert (u ''maria'') (known_contacts st) = known_contacts st"
    using assms by auto
  ultimately show ?thesis
    by (simp add: gen_normal clean_demo_maria)
qed

section \<open>Message ids and duplicate suppression\<close>

lemma last_dropWhile_nonempty: "dropWhile P xs \<noteq> [] \<Longrightarrow> last (dropWhile P xs) = last xs"
  by (induction xs) (auto split: if_splits)

lemma py_strip_idem: "py_strip (py_strip s) = py_strip s"
proof -
  let ?a = "dropWhile py_isspace s"
  let ?b = "dropWhile py_isspace (rev ?a)"
  have front: "dropWhile py_isspace (rev ?b) = rev ?b"
  proof (cases "?b = []")
    case True
    show ?thesis by (simp only: True rev.simps dropWhile.simps)
  next
    case False
    have a: "?a \<noteq> []"
    proof
      assume "?a = []"
      then have "?b = []" by (simp only: rev.simps dropWhile.simps)
      with False show False by blast
    qed
    have "hd (rev ?b) = last ?b"
      by (simp only: hd_rev)
    also have "\<dots> = last (rev ?a)"
      using False by (rule last_dropWhile_nonempty)
    also have "\<dots> = hd ?a"
      by (simp only: last_rev)
    finally have hd_eq: "hd (rev ?b) = hd ?a" .
    have "\<not> py_isspace (hd (rev ?b))"
      unfolding hd_eq using a by (rule hd_dropWhile)
    then show ?thesis
      by (simp only: dropWhile_eq_self_iff) blast
  qed
  have "py_strip (py_strip s) = rev (dropWhile py_isspace (rev (dropWhile py_isspace (rev ?b))))"
    by (simp only: py_strip_def)
  also have "\<dots> = rev (dropWhile py_isspace (rev (rev ?b)))"
    by (simp only: front)
  also have "\<dots> = rev (dropWhile py_isspace ?b)"
    by (simp only: rev_rev_ident)
  also have "\<dots> = rev ?b"
    by (simp only: dropWhile_idem)
  finally show ?thesis by (simp only: py_strip_def)
qed

lemma collect_incoming_stripped:
  assumes "\<forall>m \<in> set acc. m \<noteq> [] \<and> py_strip m = m"
  shows "\<forall>m \<in> set (collect_incoming sels acc). m \<noteq> [] \<and> py_strip m = m"
  using assms
proof (induction sels arbitrary: acc)
  case Nil
  then show ?case by simp
next
  case (Cons sel rest)
  obtain texts raised where sel: "sel = (texts, raised)" by (cases sel)
  let ?found = "acc @ filter (\<lambda>msg_text. msg_text \<noteq> []) (map py_strip texts)"
  have f: "\<forall>m \<in> set ?found. m \<noteq> [] \<and> py_strip m = m"
  proof
    fix m assume "m \<in> set ?found"
    then have "m \<in> set acc \<or> (m \<in> py_strip ` set texts \<and> m \<noteq> [])"
      by (simp only: set_append Un_iff set_filter mem_Collect_eq set_map)
    then show "m \<noteq> [] \<and> py_strip m = m"
    proof
      assume "m \<in> set acc"
      with Cons.prems show ?thesis by blast
    next
      assume "m \<in> py_strip ` set texts \<and> m \<noteq> []"
      then obtain t where "m = py_strip t" and "m \<noteq> []" by blast
      then show ?thesis by (simp only: py_strip_idem) blast
    qed
  qed
  have step: "collect_incoming (sel # rest) acc =
      (if raised then collect_incoming rest ?found
       else if ?found \<noteq> [] then ?found else collect_incoming rest ?found)"
    unfolding sel by (simp only: collect_incoming.simps Let_def)
  show ?case
  proof (cases "raised \<or> ?found = []")
    case True
    then have "collect_incoming (sel # rest) acc = collect_incoming rest ?found"
      unfolding step by (simp only: split: if_split) blast
    with Cons.IH [OF f] show ?thesis by (simp only:)
  next
    case False
    then have "collect_incoming (sel # rest) acc = ?found"
      unfolding step by (simp only: split: if_split) blast
    with f show ?thesis by (simp only:)
  qed
qed

lemma latest_message_stripped:
  assumes "get_latest_incoming_message L sels = Some m"
  shows "m \<noteq> [] \<and> py_strip m = m"
proof -
  have "collect_incoming sels [] \<noteq> []" and "m = last (collect_incoming sels [])"
    using assms by (auto simp add: get_latest_incoming_message_def Let_def split: if_splits)
  then have "m \<in> set (collect_incoming sels [])" by simp
  with collect_incoming_stripped [of "[]" sels] show ?thesis by simp
qed

lemma bucket_floor: "0 \<le> t \<Longrightarrow> py_int t div 60 = \<lfloor>t / 60\<rfloor>"
  using floor_divide_real_eq_div [of 60 t] by (simp add: py_int_def)

lemma bucket_before_1970:
  "\<lfloor>(- 60.5 :: real) / 60\<rfloor> = \<lfloor>(- 119.5 :: real) / 60\<rfloor>
   \<and> py_int (- 60.5) div 60 \<noteq> py_int (- 119.5) div 60"
  by (simp add: py_int_def)

lemma create_message_id_deterministic:
  assumes "take 50 m1 = take 50 m2" and "0 \<le> t1" and "0 \<le> t2" and "\<lfloor>t1 / 60\<rfloor> = \<lfloor>t2 / 60\<rfloor>"
  shows "create_message_id L m1 C t1 = create_message_id L m2 C t2"
  using assms by (simp add: create_message_id_def bucket_floor)

lemma process_chat_replied_id:
  assumes "process_chat L env st = (Replied reply, st')"
    and "get_latest_incoming_message L (incoming env) = Some m"
  shows "\<exists>message_id.
           create_message_id L m (get_current_chat_name (header_names env) (header_time env)) (id_time env)
             = Some message_id
         \<and> message_id |\<in>| processed_messages st'"
  using assms
  by (auto simp add: process_chat_def Let_def split: if_splits option.splits prod.splits)

lemma process_chat_already:
  assumes "click_ok env"
    and "get_latest_incoming_message L (incoming env) = Some m"
    and "is_message_from_user m"
    and "create_message_id L m (get_current_chat_name (header_names env) (header_time env)) (id_time env)
           = Some message_id"
    and "message_id |\<in>| processed_messages st"
  shows "process_chat L env st = (AlreadyProcessed, st)"
  using assms latest_message_stripped [OF assms(2)]
  by (simp add: process_chat_def Let_def)

lemma loop_tick_before_cleanup:
  "loop_tick L env st =
     (if continues (fst (before_cleanup L env st)) then before_cleanup L env st
      else (fst (before_cleanup L env st), housekeeping env (snd (before_cleanup L env st))))"
proof -
  obtain unread st1 where scan: "scan_for_unread_chats (scan_time env) (chat_list env) st = (unread, st1)"
    by (cases "scan_for_unread_chats (scan_time env) (chat_list env) st")
  obtain out st2 where proc: "process_chat L env st1 = (out, st2)"
    by (cases "process_chat L env st1")
  show ?thesis
    by (simp add: loop_tick_def before_cleanup_def scan proc split: list.split prod.split)
qed

lemma process_chat_processed:
  "processed_messages st |\<subseteq>| processed_messages (snd (process_chat L env st))
   \<and> fcard (processed_messages (snd (process_chat L env st))) \<le> fcard (processed_messages st) + 1"
proof -
  have "processed_messages st' = processed_messages st"
    if "generate_ai_response L model st message C = (reply, st')" for model message C reply st'
    using gen_ledgers [OF that] by simp
  then show ?thesis
    by (auto simp add: process_chat_def Let_def fcard_finsert_if split: option.split prod.split)
qed

lemma before_cleanup_processed:
  "processed_messages st |\<subseteq>| processed_messages (snd (before_cleanup L env st))
   \<and> fcard (processed_messages (snd (before_cleanup L env st))) \<le> fcard (processed_messages st) + 1"
proof -
  obtain unread st1 where scan: "scan_for_unread_chats (scan_time env) (chat_list env) st = (unread, st1)"
    by (cases "scan_for_unread_chats (scan_time env) (chat_list env) st")
  have st1: "processed_messages st1 = processed_messages st"
    using scan_ledgers [of "scan_time env" "chat_list env" st] scan by simp
  show ?thesis
    using process_chat_processed [of st1 L env] st1
    by (simp add: before_cleanup_def scan split: list.split prod.split)
qed

lemma loop_tick_keeps_processed:
  assumes "continues (fst (before_cleanup L env st))
         \<or> fcard (processed_messages (snd (before_cleanup L env st))) \<le> 100"
  shows "processed_messages (snd (loop_tick L env st)) = processed_messages (snd (before_cleanup L env st))"
  using assms
  by (auto simp add: loop_tick_before_cleanup housekeeping_def cleanup_processed_small)

lemma main_monitoring_loop_keeps_processed:
  assumes "no_eviction L envs st"
  shows "processed_messages st |\<subseteq>| processed_messages (main_monitoring_loop L envs st)"
  using assms
proof (induction envs arbitrary: st)
  case Nil
  show ?case by simp
next
  case (Cons env envs)
  from Cons.prems have here: "continues (fst (before_cleanup L env st))
         \<or> fcard (processed_messages (snd (before_cleanup L env st))) \<le> 100"
    and rest: "no_eviction L envs (snd (loop_tick L env st))"
    by simp_all
  have "processed_messages st |\<subseteq>| processed_messages (snd (loop_tick L env st))"
    using loop_tick_keeps_processed [OF here] before_cleanup_processed [of st L env] by simp
  with Cons.IH [OF rest] show ?case by auto
qed

lemma loop_tick_processed_card:
  "fcard (processed_messages (snd (loop_tick L env st))) \<le> fcard (processed_messages st) + 1"
proof -
  have "fcard (cleanup_processed order pm) \<le> fcard pm" for order pm
    by (auto simp add: cleanup_processed_def discard_all_eq intro!: fcard_mono)
  from this [of "cleanup_order env" "processed_messages (snd (before_cleanup L env st))"]
    before_cleanup_processed [of st L env]
  show ?thesis
    by (auto simp add: loop_tick_before_cleanup housekeeping_def)
qed

lemma small_ledger_no_eviction:
  assumes "fcard (processed_messages st) + length envs \<le> 100"
  shows "no_eviction L envs st"
  using assms
proof (induction envs arbitrary: st)
  case Nil
  show ?case by simp
next
  case (Cons env envs)
  from Cons.prems before_cleanup_processed [of st L env]
  have here: "fcard (processed_messages (snd (before_cleanup L env st))) \<le> 100" by simp
  from Cons.prems loop_tick_processed_card [of L env st]
  have "fcard (processed_messages (snd (loop_tick L env st))) + length envs \<le> 100" by simp
  from Cons.IH [OF this] here show ?case by simp
qed

lemma loop_tick_replied_id:
  assumes "loop_tick L env st = (Replied reply, st')"
    and "get_latest_incoming_message L (incoming env) = Some m"
  shows "\<exists>message_id.
           create_message_id L m (get_current_chat_name (header_names env) (header_time env)) (id_time env)
             = Some message_id
         \<and> message_id |\<in>| processed_messages (snd (before_cleanup L env st))"
proof -
  obtain unread st1 where scan: "scan_for_unread_chats (scan_time env) (chat_list env) st = (unread, st1)"
    by (cases "scan_for_unread_chats (scan_time env) (chat_list env) st")
  obtain out st2 where proc: "process_chat L env st1 = (out, st2)"
    by (cases "process_chat L env st1")
  from assms(1) have "unread \<noteq> []" and "out = Replied reply"
    by (auto simp add: loop_tick_def scan proc split: list.splits if_splits)
  then have "before_cleanup L env st = (Replied reply, st2)" and "process_chat L env st1 = (Replied reply, st2)"
    using proc by (auto simp add: before_cleanup_def scan split: list.splits)
  with process_chat_replied_id [OF this(2) assms(2)] show ?thesis by simp
qed

lemma process_chat_no_send:
  assumes "get_latest_incoming_message L (incoming env) = Some m"
    and "create_message_id L m (get_current_chat_name (header_names env) (header_time env)) (id_time env)
           = Some message_id"
    and "message_id |\<in>| processed_messages st"
  shows "fst (process_chat L env st) \<in> {ClickFailed, NoValidMessage, OwnMessage, AlreadyProcessed}
       \<and> snd (process_chat L env st) = st"
  using assms by (simp add: process_chat_def Let_def)

text \<open>
  C3, as the code has it. \<open>create_message_id\<close> depends only on the chat name, the
  first 50 characters of the message and the minute of the (non-negative) clock reading.
  So when an iteration answers a message with a successful send, and afterwards, over
  any further iterations, no iteration reaches the cleanup with more than 100 entries in
  \<open>processed_messages\<close>, then an iteration that reads the same contact and message
  prefix within the same minute finds the id in \<open>processed_messages\<close> and makes no
  send attempt; when it gets as far as the id check it ends as \<open>AlreadyProcessed\<close>.
\<close>

theorem duplicate_suppressed:
  assumes "take 50 m1 = take 50 m2"
    and "0 \<le> id_time env1" and "0 \<le> id_time env2"
    and "\<lfloor>id_time env1 / 60\<rfloor> = \<lfloor>id_time env2 / 60\<rfloor>"
    and "get_current_chat_name (header_names env1) (header_time env1) = C"
    and "get_current_chat_name (header_names env2) (header_time env2) = C"
    and "get_latest_incoming_message L (incoming env1) = Some m1"
    and "get_latest_incoming_message L (incoming env2) = Some m2"
    and "loop_tick L env1 st = (Replied reply, st')"
    and "no_eviction L (env1 # envs) st"
  shows "create_message_id L m1 C (id_time env1) = create_message_id L m2 C (id_time env2)
       \<and> (\<exists>message_id. create_message_id L m2 C (id_time env2) = Some message_id
             \<and> message_id |\<in>| processed_messages (main_monitoring_loop L envs st'))
       \<and> (\<forall>sent. fst (loop_tick L env2 (main_monitoring_loop L envs st')) \<noteq> Replied sent
                \<and> fst (loop_tick L env2 (main_monitoring_loop L envs st')) \<noteq> SendFailed sent)
       \<and> (fst (scan_for_unread_chats (scan_time env2) (chat_list env2) (main_monitoring_loop L envs st')) \<noteq> []
            \<and> click_ok env2 \<and> is_message_from_user m2
          \<longrightarrow> fst (loop_tick L env2 (main_monitoring_loop L envs st')) = AlreadyProcessed)"
proof -
  let ?st2 = "main_monitoring_loop L envs st'"
  have same: "create_message_id L m1 C (id_time env1) = create_message_id L m2 C (id_time env2)"
    using assms(1-4) by (rule create_message_id_deterministic)
  from loop_tick_replied_id [OF assms(9,7)] assms(5)
  obtain message_id where i1: "create_message_id L m1 C (id_time env1) = Some message_id"
    and b: "message_id |\<in>| processed_messages (snd (before_cleanup L env1 st))" by auto
  from assms(10) have here: "continues (fst (before_cleanup L env1 st))
         \<or> fcard (processed_messages (snd (before_cleanup L env1 st))) \<le> 100"
    and rest: "no_eviction L envs (snd (loop_tick L env1 st))"
    by simp_all
  from loop_tick_keeps_processed [OF here] b assms(9)
  have "message_id |\<in>| processed_messages st'" by simp
  moreover from rest assms(9) have "no_eviction L envs st'" by simp
  ultimately have mem: "message_id |\<in>| processed_messages ?st2"
    using main_monitoring_loop_keeps_processed [of L envs st'] by auto
  from i1 same have i2: "create_message_id L m2 C (id_time env2) = Some message_id" by simp
  obtain unread st3 where scan: "scan_for_unread_chats (scan_time env2) (chat_list env2) ?st2 = (unread, st3)"
    by (cases "scan_for_unread_chats (scan_time env2) (chat_list env2) ?st2")
  have st3: "processed_messages st3 = processed_messages ?st2"
    using scan_ledgers [of "scan_time env2" "chat_list env2" ?st2] scan by simp
  with mem have mem3: "message_id |\<in>| processed_messages st3" by simp
  from i2 assms(6)
  have i3: "create_message_id L m2 (get_current_chat_name (header_names env2) (header_time env2)) (id_time env2)
      = Some message_id" by simp
  note p = process_chat_no_send [OF assms(8) i3 mem3]
  have already: "process_chat L env2 st3 = (AlreadyProcessed, st3)"
    if "click_ok env2" and "is_message_from_user m2"
    using that assms(8) i3 mem3 by (intro process_chat_already)
  obtain out st4 where proc: "process_chat L env2 st3 = (out, st4)"
    by (cases "process_chat L env2 st3")
  with p have out: "out \<in> {ClickFailed, NoValidMessage, OwnMessage, AlreadyProcessed}" by simp
  have tick: "fst (loop_tick L env2 ?st2) = (if unread = [] then NoUnread else out)"
    by (cases unread) (auto simp add: loop_tick_def scan proc split: prod.split)
  have no_send: "fst (loop_tick L env2 ?st2) \<noteq> Replied sent \<and> fst (loop_tick L env2 ?st2) \<noteq> SendFailed sent" for sent
    unfolding tick using out by auto
  have "fst (loop_tick L env2 ?st2) = AlreadyProcessed"
    if "fst (scan_for_unread_chats (scan_time env2) (chat_list env2) ?st2) \<noteq> []"
      and "click_ok env2" and "is_message_from_user m2"
    using that(1) already [OF that(2,3)] proc unfolding tick by (simp add: scan)
  with same i2 mem no_send show ?thesis by blast
qed

section \<open>Whole iterations on the concrete input\<close>

lemma loop_tick_surfaced:
  assumes "scan_for_unread_chats (scan_time env) (chat_list env) st = ([c], st1)"
    and "process_chat L env st1 = (out, st2)"
  shows "loop_tick L env st = (out, if continues out then st2 else housekeeping env st2)"
  using assms by (cases c) (simp add: loop_tick_def)

lemma loop_tick_nothing:
  assumes "scan_for_unread_chats (scan_time env) (chat_list env) st = ([], st1)"
  shows "loop_tick L env st = (NoUnread, housekeeping env st1)"
  using assms by (simp add: loop_tick_def)

lemma tick_maria_first:
  "fst (loop_tick demo_lib (maria_env 1700000041 144 [u ''hi''] True []) (WhatsAppAgent_init 1700000000))
     = Replied busy_reply"
proof -
  let ?env = "maria_env 1700000041 144 [u ''hi''] True []"
  let ?st = "WhatsAppAgent_init 1700000000"
  let ?st1 = "?st\<lparr>last_scan_time := 1700000041, scan_count := scan_count ?st + 1,
          processed_chats := finsert (chat_id_of (maria_row 144)) (processed_chats ?st)\<rparr>"
  have scan: "scan_for_unread_chats (scan_time ?env) (chat_list ?env) ?st =
     ([(maria_row 144, u ''Maria'', chat_id_of (maria_row 144))], ?st1)"
    unfolding maria_env_fields
    by (rule scan_maria) (simp_all add: init_fields SCAN_COOLDOWN_def)
  have new: "u ''maria'' |\<notin>| known_contacts ?st1" "u ''maria'' |\<notin>| busy_message_sent ?st1"
    by (simp_all add: init_fields)
  have "u ''792884534d2e'' |\<notin>| processed_messages ?st1"
    by (simp add: init_fields)
  from process_maria_at [OF bucket_41 this, of 144 True "[]"]
  have "fst (process_chat demo_lib ?env ?st1) = Replied busy_reply"
    by (simp add: gen_maria_new [OF new])
  then obtain st2 where "process_chat demo_lib ?env ?st1 = (Replied busy_reply, st2)"
    by (cases "process_chat demo_lib ?env ?st1") simp
  from loop_tick_surfaced [OF scan this] show ?thesis by simp
qed

theorem cooldown_hides_chat_witness:
  "chat_cooldowns
     (snd (loop_tick demo_lib (maria_env 1700000041 144 [u ''hi''] True []) (WhatsAppAgent_init 1700000000)))
     (u ''Maria'') = Some 1700000048
   \<and> (maria_row 72, u ''Maria'', u ''0_72'')
       \<notin> set (fst (scan_for_unread_chats 1700000056 [None, Some [Some (maria_row 72)]]
              (main_monitoring_loop demo_lib [maria_env 1700000043 72 [u ''hi''] True []]
                 (snd (loop_tick demo_lib (maria_env 1700000041 144 [u ''hi''] True [])
                        (WhatsAppAgent_init 1700000000))))))"
proof -
  let ?env = "maria_env 1700000041 144 [u ''hi''] True []"
  let ?st = "WhatsAppAgent_init 1700000000"
  let ?envs = "[maria_env 1700000043 72 [u ''hi''] True []]"
  have h1: "loop_tick demo_lib ?env ?st = (Replied busy_reply, snd (loop_tick demo_lib ?env ?st))"
    using tick_maria_first by (simp add: prod_eq_iff)
  have h2: "cleanup_time ?env \<le> 1700000056"
    by (simp add: maria_env_fields)
  have h3: "\<forall>e \<in> set ?envs. sent_time ?env \<le> sent_time e \<and> cleanup_time e \<le> 1700000056"
    by (simp add: maria_env_fields)
  have h4: "1700000056 - sent_time ?env < MESSAGE_COOLDOWN"
    by (simp add: maria_env_fields MESSAGE_COOLDOWN_def)
  from cooldown_hides_chat [OF h1 h2 h3 h4, of "[None, Some [Some (maria_row 72)]]"]
  show ?thesis
    by (auto simp add: maria_env_fields header_maria)
qed


lemma floor_same_minute: "\<lfloor>(1700000041 + 4 :: real) / 60\<rfloor> = \<lfloor>(1700000064 + 4 :: real) / 60\<rfloor>"
  by simp

lemma tick_init_state:
  "processed_chats (snd (loop_tick demo_lib (maria_env 1700000041 144 [u ''hi''] True [])
                          (WhatsAppAgent_init 1700000000))) = {|u ''0_144''|}
   \<and> chat_cooldowns (snd (loop_tick demo_lib (maria_env 1700000041 144 [u ''hi''] True [])
                          (WhatsAppAgent_init 1700000000))) (u ''Maria'') = Some 1700000048
   \<and> last_scan_time (snd (loop_tick demo_lib (maria_env 1700000041 144 [u ''hi''] True [])
                          (WhatsAppAgent_init 1700000000))) = 1700000041
   \<and> scan_count (snd (loop_tick demo_lib (maria_env 1700000041 144 [u ''hi''] True [])
                          (WhatsAppAgent_init 1700000000))) = 1"
proof -
  let ?env = "maria_env 1700000041 144 [u ''hi''] True []"
  let ?st = "WhatsAppAgent_init 1700000000"
  let ?st1 = "?st\<lparr>last_scan_time := 1700000041, scan_count := scan_count ?st + 1,
          processed_chats := finsert (chat_id_of (maria_row 144)) (processed_chats ?st)\<rparr>"
  let ?st2 = "?st1\<lparr>known_contacts := finsert (u ''maria'') (known_contacts ?st1),
          busy_message_sent := finsert (u ''maria'') (busy_message_sent ?st1),
          processed_messages := finsert (u ''792884534d2e'') (processed_messages ?st1),
          chat_cooldowns := (chat_cooldowns ?st1)(u ''Maria'' \<mapsto> 1700000041 + 7)\<rparr>"
  have scan: "scan_for_unread_chats (scan_time ?env) (chat_list ?env) ?st =
     ([(maria_row 144, u ''Maria'', chat_id_of (maria_row 144))], ?st1)"
    unfolding maria_env_fields
    by (rule scan_maria) (simp_all add: init_fields SCAN_COOLDOWN_def)
  have new: "u ''maria'' |\<notin>| known_contacts ?st1" "u ''maria'' |\<notin>| busy_message_sent ?st1"
    by (simp_all add: init_fields)
  have fresh: "u ''792884534d2e'' |\<notin>| processed_messages ?st1"
    by (simp add: init_fields)
  have proc: "process_chat demo_lib ?env ?st1 = (Replied busy_reply, ?st2)"
    using process_maria_at [OF bucket_41 fresh, of 144 True "[]"]
    by (simp add: gen_maria_new [OF new])
  have tick: "loop_tick demo_lib ?env ?st = (Replied busy_reply, housekeeping ?env ?st2)"
    using loop_tick_surfaced [OF scan proc] by simp
  have cd: "chat_cooldowns (housekeeping ?env ?st2) (u ''Maria'') = Some 1700000048"
    by (simp add: housekeeping_def cleanup_cooldowns_def maria_env_fields MESSAGE_COOLDOWN_def)
  have rest: "processed_chats (housekeeping ?env ?st2) = {|u ''0_144''|}"
    "last_scan_time (housekeeping ?env ?st2) = 1700000041"
    "scan_count (housekeeping ?env ?st2) = 1"
    by (simp_all add: housekeeping_def init_fields chat_id_maria)
  from cd rest show ?thesis unfolding tick by simp
qed

lemma idle_tick:
  assumes "scan_time env - last_scan_time st < SCAN_COOLDOWN"
  shows "loop_tick L env st = (NoUnread, housekeeping env st)"
  using assms by (simp add: loop_tick_def scan_for_unread_chats_def)

theorem duplicate_suppressed_witness:
  "create_message_id demo_lib (u ''hi'') (u ''Maria'') (1700000041 + 4)
     = create_message_id demo_lib (u ''hi'') (u ''Maria'') (1700000064 + 4)
   \<and> u ''792884534d2e'' |\<in>| processed_messages
        (main_monitoring_loop demo_lib [maria_env 1700000043 144 [u ''hi''] True []]
           (snd (loop_tick demo_lib (maria_env 1700000041 144 [u ''hi''] True [])
                   (WhatsAppAgent_init 1700000000))))
   \<and> fst (loop_tick demo_lib (maria_env 1700000064 72 [u ''hi''] True [])
          (main_monitoring_loop demo_lib [maria_env 1700000043 144 [u ''hi''] True []]
             (snd (loop_tick demo_lib (maria_env 1700000041 144 [u ''hi''] True [])
                     (WhatsAppAgent_init 1700000000)))))
     = AlreadyProcessed"
proof -
  let ?env1 = "maria_env 1700000041 144 [u ''hi''] True []"
  let ?envx = "maria_env 1700000043 144 [u ''hi''] True []"
  let ?env2 = "maria_env 1700000064 72 [u ''hi''] True []"
  let ?st = "WhatsAppAgent_init 1700000000"
  let ?st' = "snd (loop_tick demo_lib ?env1 ?st)"
  let ?st2 = "main_monitoring_loop demo_lib [?envx] ?st'"
  have h9: "loop_tick demo_lib ?env1 ?st = (Replied busy_reply, ?st')"
    using tick_maria_first by (simp add: prod_eq_iff)
  have h1: "take 50 (u ''hi'') = take 50 (u ''hi'')" by simp
  have h2: "0 \<le> id_time ?env1" by (simp add: maria_env_fields)
  have h3: "0 \<le> id_time ?env2" by (simp add: maria_env_fields)
  have h4: "\<lfloor>id_time ?env1 / 60\<rfloor> = \<lfloor>id_time ?env2 / 60\<rfloor>"
    unfolding maria_env_fields by (rule floor_same_minute)
  have h5: "get_current_chat_name (header_names ?env1) (header_time ?env1) = u ''Maria''"
    by (simp add: maria_env_fields header_maria)
  have h6: "get_current_chat_name (header_names ?env2) (header_time ?env2) = u ''Maria''"
    by (simp add: maria_env_fields header_maria)
  have h7: "get_latest_incoming_message demo_lib (incoming ?env1) = Some (u ''hi'')"
    by (simp add: maria_env_fields latest_hi)
  have h8: "get_latest_incoming_message demo_lib (incoming ?env2) = Some (u ''hi'')"
    by (simp add: maria_env_fields latest_hi)
  have h10: "no_eviction demo_lib (?env1 # [?envx]) ?st"
    by (rule small_ledger_no_eviction) (simp add: init_fields fcard_fempty)
  have idle: "loop_tick demo_lib ?envx ?st' = (NoUnread, housekeeping ?envx ?st')"
    by (rule idle_tick) (simp add: maria_env_fields tick_init_state SCAN_COOLDOWN_def)
  have st2: "?st2 = housekeeping ?envx ?st'"
    by (simp add: idle)
  have cd: "chat_cooldowns ?st2 (u ''Maria'') = Some 1700000048"
    unfolding st2
    by (rule housekeeping_cooldown) (simp_all add: tick_init_state maria_env_fields)
  have fields: "processed_chats ?st2 = {|u ''0_144''|}" "last_scan_time ?st2 = 1700000041"
    "scan_count ?st2 = 1"
    unfolding st2 by (simp_all add: housekeeping_def tick_init_state)
  have "u ''0_72'' \<noteq> u ''0_144''"
    by (simp add: u_def)
  then have "scan_for_unread_chats (scan_time ?env2) (chat_list ?env2) ?st2 =
     ([(maria_row 72, u ''Maria'', chat_id_of (maria_row 72))],
      ?st2\<lparr>last_scan_time := 1700000064, scan_count := scan_count ?st2 + 1,
          processed_chats := finsert (chat_id_of (maria_row 72)) (processed_chats ?st2)\<rparr>)"
    unfolding maria_env_fields
    using cd fields
    by (intro scan_maria) (simp_all add: SCAN_COOLDOWN_def MESSAGE_COOLDOWN_def chat_id_maria)
  then have surfaced: "fst (scan_for_unread_chats (scan_time ?env2) (chat_list ?env2) ?st2) \<noteq> []"
    by simp
  have click: "click_ok ?env2"
    by (simp add: maria_env_fields)
  from duplicate_suppressed [OF h1 h2 h3 h4 h5 h6 h7 h8 h9 h10]
    surfaced click hi_from_user message_id_maria_bucket [OF bucket_64]
  show ?thesis
    by (simp add: maria_env_fields)
qed

section \<open>Two iterations on the full ledger\<close>

lemma maria_id_order:
  "distinct (u ''792884534d2e'' # stored_ids 100)
   \<and> fset_of_list (u ''792884534d2e'' # stored_ids 100)
       = finsert (u ''792884534d2e'') (processed_messages full_ledger_agent)"
  using maria_id_not_stored stored_ids_distinct [of 100]
  by (simp add: full_ledger_agent_def)

lemma evict_maria_id:
  "u ''792884534d2e'' |\<notin>|
     cleanup_processed (u ''792884534d2e'' # stored_ids 100)
       (finsert (u ''792884534d2e'') (fset_of_list (stored_ids 100)))"
proof -
  let ?order = "u ''792884534d2e'' # stored_ids 100"
  let ?pm = "finsert (u ''792884534d2e'') (fset_of_list (stored_ids 100))"
  have d: "distinct ?order"
    using maria_id_order by simp
  have e: "fset_of_list ?order = ?pm"
    by simp
  have "fcard ?pm = 101"
    using fcard_fset_of_list [OF d] by (simp add: stored_ids_length)
  then have big: "fcard ?pm > 100" by simp
  have "take 50 ?order = u ''792884534d2e'' # take 49 (stored_ids 100)"
    by simp
  then show ?thesis
    unfolding cleanup_processed_big(1) [OF big d e] by simp
qed

lemma tick_full_first:
  "\<exists>st'. loop_tick demo_lib
            (maria_env 1700000041 144 [u ''hi''] True (u ''792884534d2e'' # stored_ids 100))
            full_ledger_agent = (Replied busy_reply, st')
        \<and> u ''792884534d2e'' |\<notin>| processed_messages st'
        \<and> processed_chats st' = {|u ''0_144''|}
        \<and> chat_cooldowns st' (u ''Maria'') = Some 1700000048
        \<and> last_scan_time st' = 1700000041
        \<and> scan_count st' = 201
        \<and> u ''maria'' |\<in>| known_contacts st'"
proof -
  let ?env = "maria_env 1700000041 144 [u ''hi''] True (u ''792884534d2e'' # stored_ids 100)"
  let ?st = "full_ledger_agent"
  let ?st1 = "?st\<lparr>last_scan_time := 1700000041, scan_count := scan_count ?st + 1,
          processed_chats := finsert (chat_id_of (maria_row 144)) (processed_chats ?st)\<rparr>"
  let ?st2 = "?st1\<lparr>known_contacts := finsert (u ''maria'') (known_contacts ?st1),
          busy_message_sent := finsert (u ''maria'') (busy_message_sent ?st1),
          processed_messages := finsert (u ''792884534d2e'') (processed_messages ?st1),
          chat_cooldowns := (chat_cooldowns ?st1)(u ''Maria'' \<mapsto> 1700000041 + 7)\<rparr>"
  have scan: "scan_for_unread_chats (scan_time ?env) (chat_list ?env) ?st =
     ([(maria_row 144, u ''Maria'', chat_id_of (maria_row 144))], ?st1)"
    unfolding maria_env_fields
    by (rule scan_maria) (simp_all add: full_ledger_agent_def SCAN_COOLDOWN_def)
  have new: "u ''maria'' |\<notin>| known_contacts ?st1" "u ''maria'' |\<notin>| busy_message_sent ?st1"
    by (simp_all add: full_ledger_agent_def u_def)
  have fresh: "u ''792884534d2e'' |\<notin>| processed_messages ?st1"
    using maria_id_not_stored by (simp add: full_ledger_agent_def fset_of_list_elem)
  have proc: "process_chat demo_lib ?env ?st1 = (Replied busy_reply, ?st2)"
    using process_maria_at [OF bucket_41 fresh, of 144 True "u ''792884534d2e'' # stored_ids 100"]
    by (simp add: gen_maria_new [OF new])
  have tick: "loop_tick demo_lib ?env ?st = (Replied busy_reply, housekeeping ?env ?st2)"
    using loop_tick_surfaced [OF scan proc] by simp
  have pm: "u ''792884534d2e'' |\<notin>| processed_messages (housekeeping ?env ?st2)"
    using evict_maria_id by (simp add: housekeeping_def maria_env_fields full_ledger_agent_def)
  have cd: "chat_cooldowns (housekeeping ?env ?st2) (u ''Maria'') = Some 1700000048"
    by (simp add: housekeeping_def cleanup_cooldowns_def maria_env_fields MESSAGE_COOLDOWN_def)
  have rest: "processed_chats (housekeeping ?env ?st2) = {|u ''0_144''|}"
    "last_scan_time (housekeeping ?env ?st2) = 1700000041"
    "scan_count (housekeeping ?env ?st2) = 201"
    "u ''maria'' |\<in>| known_contacts (housekeeping ?env ?st2)"
    by (simp_all add: housekeeping_def full_ledger_agent_def chat_id_maria)
  from tick pm cd rest show ?thesis by blast
qed

lemma tick_full_second:
  assumes "u ''792884534d2e'' |\<notin>| processed_messages st"
    and "processed_chats st = {|u ''0_144''|}"
    and "chat_cooldowns st (u ''Maria'') = Some 1700000048"
    and "last_scan_time st = 1700000041"
    and "scan_count st = 201"
    and "u ''maria'' |\<in>| known_contacts st"
  shows "fst (loop_tick demo_lib (maria_env 1700000064 72 [u ''hi''] True []) st)
           = Replied (u ''Yep, what's up?'')"
proof -
  let ?env = "maria_env 1700000064 72 [u ''hi''] True []"
  let ?st1 = "st\<lparr>last_scan_time := 1700000064, scan_count := scan_count st + 1,
          processed_chats := finsert (chat_id_of (maria_row 72)) (processed_chats st)\<rparr>"
  have "u ''0_72'' \<noteq> u ''0_144''"
    by (simp add: u_def)
  then have scan: "scan_for_unread_chats (scan_time ?env) (chat_list ?env) st =
     ([(maria_row 72, u ''Maria'', chat_id_of (maria_row 72))], ?st1)"
    unfolding maria_env_fields
    using assms(2-5)
    by (intro scan_maria) (simp_all add: SCAN_COOLDOWN_def MESSAGE_COOLDOWN_def chat_id_maria)
  have fresh: "u ''792884534d2e'' |\<notin>| processed_messages ?st1"
    using assms(1) by simp
  have known: "u ''maria'' |\<in>| known_contacts ?st1"
    using assms(6) by simp
  have "fst (process_chat demo_lib ?env ?st1) = Replied (u ''Yep, what's up?'')"
    using process_maria_at [OF bucket_64 fresh, of 72 True "[]"]
    by (simp add: gen_maria_known [OF known])
  then obtain st2 where "process_chat demo_lib ?env ?st1 = (Replied (u ''Yep, what's up?''), st2)"
    by (cases "process_chat demo_lib ?env ?st1") simp
  from loop_tick_surfaced [OF scan this] show ?thesis by simp
qed

text \<open>
  C3 as stated fails. The ledger holds 100 ids; Maria's message \<open>hi\<close> is answered and
  its id recorded as the 101st; the cleanup of the same iteration discards the first 50
  ids of the set's enumeration, here with the new id among them. Twenty-three seconds
  later, in the same minute and after the cooldown, the same message is read again: its
  id is the same, it is not in \<open>processed_messages\<close>, and a second reply is sent.
\<close>

theorem evicted_id_sent_twice:
  "fst (loop_tick demo_lib
          (maria_env 1700000041 144 [u ''hi''] True (u ''792884534d2e'' # stored_ids 100))
          full_ledger_agent)
     = Replied (u ''Hi, Akash is busy.'')
   \<and> fst (loop_tick demo_lib (maria_env 1700000064 72 [u ''hi''] True [])
          (snd (loop_tick demo_lib
                  (maria_env 1700000041 144 [u ''hi''] True (u ''792884534d2e'' # stored_ids 100))
                  full_ledger_agent)))
     = Replied (u ''Yep, what's up?'')
   \<and> create_message_id demo_lib (u ''hi'') (u ''Maria'') (1700000041 + 4) = Some (u ''792884534d2e'')
   \<and> create_message_id demo_lib (u ''hi'') (u ''Maria'') (1700000064 + 4) = Some (u ''792884534d2e'')
   \<and> \<lfloor>(1700000041 + 4 :: real) / 60\<rfloor> = \<lfloor>(1700000064 + 4 :: real) / 60\<rfloor>
   \<and> distinct (u ''792884534d2e'' # stored_ids 100)
   \<and> fset_of_list (u ''792884534d2e'' # stored_ids 100)
       = finsert (u ''792884534d2e'') (processed_messages full_ledger_agent)"
proof -
  from tick_full_first obtain st' where
    t: "loop_tick demo_lib
          (maria_env 1700000041 144 [u ''hi''] True (u ''792884534d2e'' # stored_ids 100))
          full_ledger_agent = (Replied busy_reply, st')"
    and f: "u ''792884534d2e'' |\<notin>| processed_messages st'"
      "processed_chats st' = {|u ''0_144''|}"
      "chat_cooldowns st' (u ''Maria'') = Some 1700000048"
      "last_scan_time st' = 1700000041"
      "scan_count st' = 201"
      "u ''maria'' |\<in>| known_contacts st'"
    by blast
  from tick_full_second [OF f] t maria_id_order floor_same_minute
    message_id_maria_bucket [OF bucket_41] message_id_maria_bucket [OF bucket_64]
  show ?thesis
    by (simp add: busy_reply_def)
qed

end
